theory Spec2Isabelle
  imports Complex_Main "HOL-Library.Log_Nat"
begin

section \<open>Python values and exceptions\<close>

text \<open>
  The exceptions that \<^verbatim>\<open>multimasks_from_polygons\<close> and \<^verbatim>\<open>predict\<close> raise
  themselves or let through from the calls they make. A function that can raise returns
  \<open>error + 'a\<close>, with \<open>Inl\<close> the exception.
\<close>

datatype error =
    ValueError
  | ZeroDivisionError
  | OverflowError
  | IndexError
  | AttributeError
  | FileExistsError
  | RasterioIOError
  | DriverError
  | LibraryError string
  | NotImplementedError
  | RuntimeError string

text \<open>The value a Python call hands back to its caller.\<close>

datatype pyval = PyNone | PyTuple "int list"

subsection \<open>Floats\<close>

text \<open>
  A finite Python float (IEEE 754 binary64) is the rational number it denotes. Arithmetic
  on floats rounds the exact result to the nearest representable number, ties to even,
  with 53 bits of precision, gradual underflow below \<open>2 powi (-1022)\<close> and overflow to
  infinity from \<open>2 powi 1024\<close> on. Not-a-number does not arise from the operations used
  here on finite operands.
\<close>

datatype pyfloat = Finite rat | Inf bool

definition round_half_even :: "rat \<Rightarrow> int" where
  "round_half_even q =
     (let f = \<lfloor>q\<rfloor>; d = q - of_int f
      in if d < 1 / 2 then f
         else if 1 / 2 < d then f + 1
         else if even f then f else f + 1)"

text \<open>\<open>exponent x\<close> is the \<open>e\<close> with \<open>2 powi e \<le> \<bar>x\<bar> < 2 powi (e + 1)\<close>, for \<open>x \<noteq> 0\<close>.\<close>

definition exponent :: "rat \<Rightarrow> int" where
  "exponent x =
     (let (p, q) = quotient_of \<bar>x\<bar>; k = bitlen p - bitlen q
      in if 2 powi k \<le> \<bar>x\<bar> then k else k - 1)"

definition binary64 :: "rat \<Rightarrow> pyfloat" where
  "binary64 x =
     (if x = 0 then Finite 0
      else let e = max (exponent x) (- 1022);
               ulp = 2 powi (e - 52);
               y = of_int (round_half_even (x / ulp)) * ulp
           in if 2 powi 1024 \<le> \<bar>y\<bar> then Inf (0 < x) else Finite y)"


text \<open>
  A number as Python holds it in a variable: the width parameters are floats by default
  (\<^verbatim>\<open>0.75\<close>, \<^verbatim>\<open>0.5\<close>), the docstring allows ints, and the pixel widths are ints.
\<close>

datatype pynum = PyFloat rat | PyInt int

text \<open>\<^verbatim>\<open>float(x)\<close>, as \<^verbatim>\<open>/\<close> applies it to an int operand.\<close>

definition to_float :: "pynum \<Rightarrow> error + rat" where
  "to_float x =
     (case x of
        PyFloat r \<Rightarrow> Inr r
      | PyInt i \<Rightarrow> (case binary64 (of_int i) of Finite r \<Rightarrow> Inr r | Inf _ \<Rightarrow> Inl OverflowError))"

text \<open>\<^verbatim>\<open>x / y\<close> with \<open>y\<close> a float.\<close>

definition truediv :: "pynum \<Rightarrow> rat \<Rightarrow> error + pyfloat" where
  "truediv x y =
     (case to_float x of
        Inl e \<Rightarrow> Inl e
      | Inr a \<Rightarrow> if y = 0 then Inl ZeroDivisionError else Inr (binary64 (a / y)))"

text \<open>\<^verbatim>\<open>int(x)\<close> of a float: truncation towards zero; infinity raises.\<close>

definition py_int :: "pyfloat \<Rightarrow> error + int" where
  "py_int x =
     (case x of
        Inf _ \<Rightarrow> Inl OverflowError
      | Finite r \<Rightarrow> Inr (if 0 \<le> r then \<lfloor>r\<rfloor> else \<lceil>r\<rceil>))"

section \<open>The data of the mask encoder\<close>

type_synonym path = string

datatype crs = EPSG nat

datatype geometry = Polygon "(rat \<times> rat) list" | MultiPolygon "(rat \<times> rat) list list"

text \<open>
  A GeoDataFrame: its coordinate reference system (\<^verbatim>\<open>None\<close> when the file declares
  none) and its \<^verbatim>\<open>geometry\<close> column, a null entry being \<open>None\<close>.
\<close>

record geodataframe =
  gdf_crs :: "crs option"
  geometries :: "geometry option list"

text \<open>
  A numpy array or torch tensor: its shape and its elements in row-major order.
\<close>

record 'a ndarray =
  shape :: "nat list"
  elems :: "'a list"

text \<open>The \<^verbatim>\<open>meta\<close> dictionary of a rasterio dataset.\<close>

record profile =
  driver :: string
  dtype :: string
  nodata :: "rat option"
  width :: nat
  height :: nat
  count :: nat
  crs :: "crs option"
  transform :: "rat list"

text \<open>
  An opened raster: its metadata, its per-axis pixel size \<^verbatim>\<open>res\<close> (rasterio derives it
  from the transform) and its bands.
\<close>

record dataset =
  meta :: profile
  res :: "rat \<times> rat"
  bands :: "nat ndarray"

datatype content = Raster dataset | Vector geodataframe | Opaque

datatype node = File content | Dir

type_synonym filesystem = "path \<Rightarrow> node option"

text \<open>A file read or write that the function performs, by the path it opens.\<close>

datatype access = Reads path | Writes path

text \<open>
  The world the batch driver runs in: the files, the lines printed so far (each
  \<^verbatim>\<open>print(label, value)\<close> is one line) and the file accesses so far, oldest first.
\<close>

record world =
  fs :: filesystem
  stdout :: "(string \<times> pynum) list"
  accesses :: "access list"

text \<open>
  The functions of ramp and solaris that the driver calls. They are outside the
  repository and are parameters of the model:
  \<^item> \<open>get_tq_chip_label_pairs\<close> lists the chip and label directories and pairs the files;
  \<^item> \<open>construct_mask_filepath\<close> names the mask of a chip;
  \<^item> \<open>crs_is_metric\<close> decides from the frame's reference system whether its unit is the
    metre;
  \<^item> \<open>reproject\<close> moves one geometry from a reference system to another (the work of
    \<^verbatim>\<open>GeoDataFrame.to_crs\<close>);
  \<^item> \<open>df_to_px_mask\<close> rasterizes the polygons into the one-hot mask of shape
    \<open>(H, W, 3)\<close>, or fails.
\<close>

record externals =
  get_tq_chip_label_pairs :: "filesystem \<Rightarrow> path \<Rightarrow> path \<Rightarrow> (path \<times> path) list"
  construct_mask_filepath :: "path \<Rightarrow> path \<Rightarrow> path"
  crs_is_metric :: "crs option \<Rightarrow> bool"
  reproject :: "crs \<Rightarrow> crs \<Rightarrow> geometry \<Rightarrow> geometry"
  df_to_px_mask ::
    "geodataframe \<Rightarrow> path \<Rightarrow> nat \<times> nat \<Rightarrow> dataset \<Rightarrow> pynum \<Rightarrow> pynum \<Rightarrow> bool
       \<Rightarrow> error + nat ndarray"

subsection \<open>Effects\<close>

text \<open>
  A statement that can raise and can touch the world returns its result, or the
  exception, together with the world it leaves behind.
\<close>

type_synonym ('a, 's) effect = "'s \<Rightarrow> (error + 'a) \<times> 's"

type_synonym 'a io = "('a, world) effect"

definition bind_io :: "('a, 's) effect \<Rightarrow> ('a \<Rightarrow> ('b, 's) effect) \<Rightarrow> ('b, 's) effect" where
  "bind_io m f w = (case m w of (Inl e, w') \<Rightarrow> (Inl e, w') | (Inr x, w') \<Rightarrow> f x w')"

definition return_io :: "'a \<Rightarrow> ('a, 's) effect" where
  "return_io x w = (Inr x, w)"

definition lift_io :: "error + 'a \<Rightarrow> ('a, 's) effect" where
  "lift_io r w = (r, w)"

text \<open>A \<^verbatim>\<open>for\<close> loop whose body can raise: the exception ends the loop.\<close>

fun for_each :: "('a \<Rightarrow> (unit, 's) effect) \<Rightarrow> 'a list \<Rightarrow> (unit, 's) effect" where
  "for_each f [] s = (Inr (), s)"
| "for_each f (x # xs) s =
     (case f x s of (Inl e, s') \<Rightarrow> (Inl e, s') | (Inr _, s') \<Rightarrow> for_each f xs s')"

text \<open>\<^verbatim>\<open>Path(p).is_file()\<close>\<close>

definition is_file :: "filesystem \<Rightarrow> path \<Rightarrow> bool" where
  "is_file f p = (case f p of Some (File _) \<Rightarrow> True | _ \<Rightarrow> False)"

text \<open>
  \<^verbatim>\<open>Path(p).mkdir(parents=True, exist_ok=True)\<close>: nothing to do when the directory is
  there, \<^verbatim>\<open>FileExistsError\<close> when the path is a file.
\<close>

definition mkdir :: "path \<Rightarrow> unit io" where
  "mkdir p w =
     (case fs w p of
        Some (File _) \<Rightarrow> (Inl FileExistsError, w)
      | Some Dir \<Rightarrow> (Inr (), w)
      | None \<Rightarrow> (Inr (), w\<lparr>fs := (fs w)(p \<mapsto> Dir)\<rparr>))"

text \<open>\<^verbatim>\<open>rio.open(p)\<close> for reading, and solaris's \<^verbatim>\<open>_check_rasterio_im_load(p)\<close>.\<close>

definition rio_open :: "path \<Rightarrow> dataset io" where
  "rio_open p w =
     (case fs w p of
        Some (File (Raster d)) \<Rightarrow> (Inr d, w\<lparr>accesses := accesses w @ [Reads p]\<rparr>)
      | _ \<Rightarrow> (Inl RasterioIOError, w\<lparr>accesses := accesses w @ [Reads p]\<rparr>))"

text \<open>\<^verbatim>\<open>gpd.read_file(p)\<close>\<close>

definition read_file :: "path \<Rightarrow> geodataframe io" where
  "read_file p w =
     (case fs w p of
        Some (File (Vector g)) \<Rightarrow> (Inr g, w\<lparr>accesses := accesses w @ [Reads p]\<rparr>)
      | _ \<Rightarrow> (Inl DriverError, w\<lparr>accesses := accesses w @ [Reads p]\<rparr>))"

text \<open>
  \<^verbatim>\<open>with rio.open(p, "w", **meta) as dst: dst.write(a)\<close>: the file at \<open>p\<close> is created
  or replaced as a whole; a directory at \<open>p\<close> makes the open fail.
\<close>

definition rio_write :: "path \<Rightarrow> profile \<Rightarrow> rat \<times> rat \<Rightarrow> nat ndarray \<Rightarrow> unit io" where
  "rio_write p m r a w =
     (case fs w p of
        Some Dir \<Rightarrow> (Inl RasterioIOError, w)
      | _ \<Rightarrow>
        (Inr (),
         w\<lparr>fs := (fs w)(p \<mapsto> File (Raster \<lparr>meta = m, res = r, bands = a\<rparr>)),
           accesses := accesses w @ [Writes p]\<rparr>))"

text \<open>\<^verbatim>\<open>print(label, value)\<close>\<close>

definition print_line :: "string \<Rightarrow> pynum \<Rightarrow> unit io" where
  "print_line label v w = (Inr (), w\<lparr>stdout := stdout w @ [(label, v)]\<rparr>)"

section \<open>The mask encoder: \<^verbatim>\<open>multimasks_from_polygons.py\<close>\<close>

definition get_rasterio_shape_and_transform :: "path \<Rightarrow> ((nat \<times> nat) \<times> rat list) io" where
  "get_rasterio_shape_and_transform image_path =
     bind_io (rio_open image_path) (\<lambda>rio_dset.
     return_io ((height (meta rio_dset), width (meta rio_dset)), transform (meta rio_dset)))"

subsection \<open>Geometry filters\<close>

text \<open>\<^verbatim>\<open>gdf[~gdf["geometry"].isna()]\<close>\<close>

definition drop_null :: "geodataframe \<Rightarrow> geodataframe" where
  "drop_null gdf = gdf\<lparr>geometries := filter (\<lambda>g. g \<noteq> None) (geometries gdf)\<rparr>"

fun is_empty :: "geometry option \<Rightarrow> bool" where
  "is_empty None = False"
| "is_empty (Some (Polygon ring)) = (ring = [])"
| "is_empty (Some (MultiPolygon parts)) = list_all (\<lambda>ring. ring = []) parts"

text \<open>\<^verbatim>\<open>gdf[~gdf.is_empty]\<close>\<close>

definition drop_empty :: "geodataframe \<Rightarrow> geodataframe" where
  "drop_empty gdf = gdf\<lparr>geometries := filter (\<lambda>g. \<not> is_empty g) (geometries gdf)\<rparr>"

text \<open>
  \<^verbatim>\<open>gdf.to_crs(target)\<close>: a frame without a reference system cannot be transformed, and
  a target is required; both raise \<^verbatim>\<open>ValueError\<close>.
\<close>

definition to_crs :: "externals \<Rightarrow> geodataframe \<Rightarrow> crs option \<Rightarrow> error + geodataframe" where
  "to_crs L gdf target =
     (case (gdf_crs gdf, target) of
        (Some s, Some t) \<Rightarrow>
          Inr (gdf\<lparr>gdf_crs := Some t,
                   geometries := map (map_option (reproject L s t)) (geometries gdf)\<rparr>)
      | _ \<Rightarrow> Inl ValueError)"

text \<open>Lines 95 to 97: the frame is brought to the reference system of the chip.\<close>

definition align_crs :: "externals \<Rightarrow> geodataframe \<Rightarrow> dataset \<Rightarrow> error + geodataframe" where
  "align_crs L gdf reference_im =
     (if gdf_crs gdf \<noteq> crs (meta reference_im) then to_crs L gdf (crs (meta reference_im))
      else Inr gdf)"

fun explode_geometry :: "geometry option \<Rightarrow> geometry option list" where
  "explode_geometry (Some (MultiPolygon parts)) = map (\<lambda>ring. Some (Polygon ring)) parts"
| "explode_geometry g = [g]"

text \<open>\<^verbatim>\<open>gdf.explode(ignore_index=True)\<close>\<close>

definition explode :: "geodataframe \<Rightarrow> geodataframe" where
  "explode gdf = gdf\<lparr>geometries := concat (map explode_geometry (geometries gdf))\<rparr>"

subsection \<open>Units\<close>

text \<open>\<^verbatim>\<open>min(reference_im.res)\<close>\<close>

definition min_res :: "dataset \<Rightarrow> rat" where
  "min_res reference_im = (case res reference_im of (a, b) \<Rightarrow> min a b)"

text \<open>\<^verbatim>\<open>int(x / r)\<close>, the conversion of lines 120 and 121.\<close>

definition meters_to_pixels :: "pynum \<Rightarrow> rat \<Rightarrow> error + int" where
  "meters_to_pixels x r = (case truediv x r of Inl e \<Rightarrow> Inl e | Inr q \<Rightarrow> py_int q)"

text \<open>
  Lines 99 to 132 of the loop body: the widths in the unit the rasterizer takes, whether
  that unit is the metre, and the \<^verbatim>\<open>first_iteration\<close> flag after the block.
\<close>

definition reconcile ::
  "externals \<Rightarrow> geodataframe \<Rightarrow> dataset \<Rightarrow> pynum \<Rightarrow> pynum \<Rightarrow> bool
     \<Rightarrow> (bool \<times> pynum \<times> pynum \<times> bool) io" where
  "reconcile L gdf reference_im input_boundary_width input_contact_spacing first_iteration =
     (if crs_is_metric L (gdf_crs gdf) then
        let meters = True;
            boundary_width = input_boundary_width;
            contact_spacing = input_contact_spacing
        in if first_iteration then
             bind_io (print_line ''Resolution (pixel width) in meter :''
                        (PyFloat (min_res reference_im))) (\<lambda>_.
             bind_io (print_line ''Multimasks labels , Input boundary_width in meters :''
                        boundary_width) (\<lambda>_.
             bind_io (print_line ''Multimasks labels , Input contact_spacing in meters :''
                        contact_spacing) (\<lambda>_.
             return_io (meters, boundary_width, contact_spacing, False))))
           else return_io (meters, boundary_width, contact_spacing, first_iteration)
      else
        let meters = False
        in bind_io (lift_io (meters_to_pixels input_boundary_width (min_res reference_im)))
             (\<lambda>boundary_width.
           bind_io (lift_io (meters_to_pixels input_contact_spacing (min_res reference_im)))
             (\<lambda>contact_spacing.
           if first_iteration then
             bind_io (print_line ''Multimasks labels , Input boundary_width in pixel :''
                        (PyInt boundary_width)) (\<lambda>_.
             bind_io (print_line ''Multimasks labels , Input contact_spacing in pixel :''
                        (PyInt contact_spacing)) (\<lambda>_.
             return_io (meters, PyInt boundary_width, PyInt contact_spacing, False)))
           else return_io (meters, PyInt boundary_width, PyInt contact_spacing,
                  first_iteration))))"

subsection \<open>From the one-hot mask to the file\<close>

text \<open>
  Modelled from the spec: \<^verbatim>\<open>multimask_to_sparse_multimask\<close> of ramp is not in the
  repository. The spec has it collapse the one-hot mask of shape \<open>(H, W, 3)\<close>, channels
  footprint, boundary and contact, into one channel with the classes 0 to 3, the
  priority being footprint, then boundary, then contact, then background.
\<close>

definition sparse_class :: "nat \<Rightarrow> nat \<Rightarrow> nat \<Rightarrow> nat" where
  "sparse_class footprint boundary contact =
     (if footprint \<noteq> 0 then 1 else if boundary \<noteq> 0 then 2 else if contact \<noteq> 0 then 3 else 0)"

definition multimask_to_sparse_multimask :: "nat ndarray \<Rightarrow> error + nat ndarray" where
  "multimask_to_sparse_multimask multimask =
     (case shape multimask of
        [h, w, c] \<Rightarrow>
          if c = 3 then
            Inr \<lparr>shape = [h, w, 1],
                 elems = map (\<lambda>i. sparse_class (elems multimask ! (3 * i))
                                     (elems multimask ! (3 * i + 1))
                                     (elems multimask ! (3 * i + 2)))
                           [0..<h * w]\<rparr>
          else Inl IndexError
      | _ \<Rightarrow> Inl IndexError)"

text \<open>
  Modelled from the spec: \<^verbatim>\<open>to_channels_first\<close> of ramp is not in the repository. The
  spec has it reorder \<open>(H, W, C)\<close> to the channel-first layout \<open>(C, H, W)\<close>.
\<close>

definition to_channels_first :: "'a ndarray \<Rightarrow> error + 'a ndarray" where
  "to_channels_first a =
     (case shape a of
        [h, w, c] \<Rightarrow>
          Inr \<lparr>shape = [c, h, w],
               elems = concat (map (\<lambda>k. concat (map (\<lambda>y. map (\<lambda>x. elems a ! ((y * w + x) * c + k))
                                                      [0..<w]) [0..<h])) [0..<c])\<rparr>
      | _ \<Rightarrow> Inl ValueError)"

text \<open>\<^verbatim>\<open>a.shape[0]\<close>\<close>

definition shape0 :: "'a ndarray \<Rightarrow> error + nat" where
  "shape0 a = (case shape a of [] \<Rightarrow> Inl IndexError | n # _ \<Rightarrow> Inr n)"

text \<open>
  Lines 159 to 165: the mask is written with the metadata of the chip, where the band
  count, the data type and the nodata value are replaced.
\<close>

definition write_mask :: "path \<Rightarrow> path \<Rightarrow> nat ndarray \<Rightarrow> unit io" where
  "write_mask chip_path mask_path sparse_multi_mask =
     bind_io (rio_open chip_path) (\<lambda>src.
     bind_io (lift_io (shape0 sparse_multi_mask)) (\<lambda>n.
     let meta = (meta src)\<lparr>count := n, dtype := ''uint8'', nodata := None\<rparr>
     in rio_write mask_path meta (res src) sparse_multi_mask))"

subsection \<open>The loop\<close>

text \<open>
  Lines 85 to 97: the shape of the chip, the label frame without its null and empty
  geometries, and the chip itself, with the frame brought to the reference system of the
  chip. (The transform read at line 85 is not used afterwards.)
\<close>

definition load_pair ::
  "externals \<Rightarrow> path \<Rightarrow> path \<Rightarrow> ((nat \<times> nat) \<times> geodataframe \<times> dataset) io" where
  "load_pair L json_path chip_path =
     bind_io (get_rasterio_shape_and_transform chip_path) (\<lambda>(mask_shape, mask_transform).
     bind_io (read_file json_path) (\<lambda>gdf.
     let gdf = drop_null gdf; gdf = drop_empty gdf in
     bind_io (rio_open chip_path) (\<lambda>reference_im.
     bind_io (lift_io (align_crs L gdf reference_im)) (\<lambda>gdf.
     return_io (mask_shape, gdf, reference_im)))))"

text \<open>
  Lines 133 to 165: the polygons are exploded and rasterized, the one-hot mask is made
  sparse and channel-first, and the mask file is written.
\<close>

definition encode_pair ::
  "externals \<Rightarrow> path \<Rightarrow> path \<Rightarrow> nat \<times> nat \<Rightarrow> geodataframe \<Rightarrow> dataset \<Rightarrow> bool \<Rightarrow> pynum
     \<Rightarrow> pynum \<Rightarrow> unit io" where
  "encode_pair L chip_path mask_path mask_shape gdf reference_im meters boundary_width
       contact_spacing =
     (let gdf_poly = explode gdf in
      bind_io (lift_io (df_to_px_mask L gdf_poly mask_path mask_shape reference_im
                 boundary_width contact_spacing meters)) (\<lambda>onehot_multi_mask.
      bind_io (lift_io (multimask_to_sparse_multimask onehot_multi_mask))
        (\<lambda>sparse_multi_mask.
      bind_io (lift_io (to_channels_first sparse_multi_mask)) (\<lambda>sparse_multi_mask.
      write_mask chip_path mask_path sparse_multi_mask))))"

text \<open>
  Lines 85 to 165, the body of the loop for a pair that is not skipped. It returns the
  \<^verbatim>\<open>first_iteration\<close> flag for the next pair.
\<close>

definition loop_body ::
  "externals \<Rightarrow> pynum \<Rightarrow> pynum \<Rightarrow> path \<Rightarrow> path \<Rightarrow> path \<Rightarrow> bool \<Rightarrow> bool io" where
  "loop_body L input_contact_spacing input_boundary_width json_path chip_path mask_path
       first_iteration =
     bind_io (load_pair L json_path chip_path) (\<lambda>(mask_shape, gdf, reference_im).
     bind_io (reconcile L gdf reference_im input_boundary_width input_contact_spacing
                first_iteration) (\<lambda>(meters, boundary_width, contact_spacing, first_iteration).
     bind_io (encode_pair L chip_path mask_path mask_shape gdf reference_im meters
                boundary_width contact_spacing) (\<lambda>_.
     return_io first_iteration)))"

text \<open>
  Lines 75 to 165: the loop over the triples of label, chip and mask path. A pair whose
  mask is a file is skipped by \<^verbatim>\<open>continue\<close>. The body stands in no \<^verbatim>\<open>try\<close>: an
  exception leaves the loop and the function. The loop returns the \<^verbatim>\<open>first_iteration\<close>
  flag it ends with.
\<close>

fun mask_loop ::
  "externals \<Rightarrow> pynum \<Rightarrow> pynum \<Rightarrow> (path \<times> path \<times> path) list \<Rightarrow> bool \<Rightarrow> bool io" where
  "mask_loop L input_contact_spacing input_boundary_width [] first_iteration w =
     (Inr first_iteration, w)"
| "mask_loop L input_contact_spacing input_boundary_width
       ((json_path, chip_path, mask_path) # rest) first_iteration w =
     (if is_file (fs w) mask_path then
        mask_loop L input_contact_spacing input_boundary_width rest first_iteration w
      else
        case loop_body L input_contact_spacing input_boundary_width json_path chip_path
               mask_path first_iteration w of
          (Inl e, w') \<Rightarrow> (Inl e, w')
        | (Inr first_iteration', w') \<Rightarrow>
            mask_loop L input_contact_spacing input_boundary_width rest first_iteration' w')"

text \<open>
  \<^verbatim>\<open>chip_paths, label_paths = list(zip(*chip_label_pairs))\<close>: with no pair the list is
  empty and the unpacking into two names raises \<^verbatim>\<open>ValueError\<close>.
\<close>

definition unzip_pairs :: "(path \<times> path) list \<Rightarrow> error + path list \<times> path list" where
  "unzip_pairs chip_label_pairs =
     (if chip_label_pairs = [] then Inl ValueError
      else Inr (map fst chip_label_pairs, map snd chip_label_pairs))"

text \<open>
  Lines 63 to 73: the chip and label paths are taken apart, the mask paths are
  constructed from the chip paths, and the three lists are zipped.
\<close>

definition json_chip_mask_zips ::
  "externals \<Rightarrow> path \<Rightarrow> (path \<times> path) list \<Rightarrow> error + (path \<times> path \<times> path) list" where
  "json_chip_mask_zips L out_mask_dir chip_label_pairs =
     (case unzip_pairs chip_label_pairs of
        Inl e \<Rightarrow> Inl e
      | Inr (chip_paths, label_paths) \<Rightarrow>
          let mask_paths = map (construct_mask_filepath L out_mask_dir) chip_paths
          in Inr (zip label_paths (zip chip_paths mask_paths)))"

text \<open>Line 61: the pairs are read off the directories as they are at that moment.\<close>

definition chip_label_pairs :: "externals \<Rightarrow> path \<Rightarrow> path \<Rightarrow> (path \<times> path) list io" where
  "chip_label_pairs L in_chip_dir in_poly_dir w =
     (Inr (get_tq_chip_label_pairs L (fs w) in_chip_dir in_poly_dir), w)"

text \<open>
  The function itself. It has no \<^verbatim>\<open>return\<close> statement: a call that ends returns
  \<^verbatim>\<open>None\<close>. The progress bar of \<^verbatim>\<open>tqdm\<close> around the loop is not modelled.
\<close>

definition multimasks_from_polygons ::
  "externals \<Rightarrow> path \<Rightarrow> path \<Rightarrow> path \<Rightarrow> pynum \<Rightarrow> pynum \<Rightarrow> pyval io" where
  "multimasks_from_polygons L in_poly_dir in_chip_dir out_mask_dir input_contact_spacing
       input_boundary_width =
     bind_io (mkdir out_mask_dir) (\<lambda>_.
     bind_io (chip_label_pairs L in_chip_dir in_poly_dir) (\<lambda>pairs.
     bind_io (lift_io (json_chip_mask_zips L out_mask_dir pairs)) (\<lambda>zips.
     let first_iteration = True
     in bind_io (mask_loop L input_contact_spacing input_boundary_width zips first_iteration)
          (\<lambda>_.
        return_io PyNone))))"

section \<open>Inference: \<^verbatim>\<open>predict.py\<close>\<close>

definition BATCH_SIZE :: nat where
  "BATCH_SIZE = 8"

definition IMAGE_SIZE :: nat where
  "IMAGE_SIZE = 256"

text \<open>
  What \<^verbatim>\<open>initialize_model\<close> can load, as the \<^verbatim>\<open>isinstance\<close> tests of \<^verbatim>\<open>predict\<close> tell
  the objects apart. A Keras model carries its \<^verbatim>\<open>predict\<close> method, from the batch of
  images to the class scores of every pixel. A FastSAM model carries its call: for the
  image paths it yields one result per image, whose \<^verbatim>\<open>masks\<close> attribute is \<^verbatim>\<open>None\<close> or
  holds the stack \<^verbatim>\<open>data\<close> of instance masks.
\<close>

datatype model =
    KerasModel "rat ndarray \<Rightarrow> rat ndarray"
  | YOLO
  | FastSAM "path list \<Rightarrow> rat ndarray option list"
  | OtherModel

text \<open>
  The calls by which \<^verbatim>\<open>predict\<close> acts on the file system and on Keras, in the order it
  makes them. \<^verbatim>\<open>save_mask\<close>, \<^verbatim>\<open>georeference\<close> and \<^verbatim>\<open>remove_files\<close> belong to other
  modules; the model records each call with its arguments.
\<close>

datatype call =
    Makedirs path
  | SaveMask "int ndarray" path
  | ClearSession
  | Georeference path path bool
  | RemoveFiles string

type_synonym 'a act = "('a, call list) effect"

definition do_call :: "call \<Rightarrow> unit act" where
  "do_call c cs = (Inr (), cs @ [c])"

text \<open>
  What \<^verbatim>\<open>predict\<close> takes from its surroundings: whether CUDA is there, the loader of
  the checkpoint, the listing of the input directory and the image reader.
\<close>

record inference_externals =
  cuda_is_available :: bool
  initialize_model :: "path \<Rightarrow> string \<Rightarrow> model"
  glob :: "string \<Rightarrow> path list"
  open_images :: "path list \<Rightarrow> rat ndarray"

subsection \<open>Array operations\<close>

text \<open>\<^verbatim>\<open>a.reshape(-1, n, n, 3)\<close>\<close>

definition reshape_images :: "nat \<Rightarrow> 'a ndarray \<Rightarrow> error + 'a ndarray" where
  "reshape_images n a =
     (let total = prod_list (shape a); k = n * n * 3
      in if k = 0 \<or> total mod k \<noteq> 0 then Inl ValueError
         else Inr (a\<lparr>shape := [total div k, n, n, 3]\<rparr>))"

text \<open>The index of the first greatest element, as \<^verbatim>\<open>np.argmax\<close> returns it.\<close>

fun argmax_from :: "nat \<Rightarrow> rat \<Rightarrow> nat \<Rightarrow> rat list \<Rightarrow> nat" where
  "argmax_from best v i [] = best"
| "argmax_from best v i (x # xs) =
     (if v < x then argmax_from i x (Suc i) xs else argmax_from best v (Suc i) xs)"

definition argmax_list :: "rat list \<Rightarrow> nat" where
  "argmax_list xs = (case xs of [] \<Rightarrow> 0 | x # rest \<Rightarrow> argmax_from 0 x 1 rest)"

text \<open>\<^verbatim>\<open>np.argmax(a, axis=-1)\<close>: an empty last axis raises \<^verbatim>\<open>ValueError\<close>.\<close>

definition argmax_last :: "rat ndarray \<Rightarrow> error + nat ndarray" where
  "argmax_last a =
     (if shape a = [] \<or> last (shape a) = 0 then Inl ValueError
      else let c = last (shape a); s = butlast (shape a)
           in Inr \<lparr>shape = s,
                   elems = map (\<lambda>i. argmax_list (take c (drop (i * c) (elems a))))
                             [0..<prod_list s]\<rparr>)"

text \<open>\<^verbatim>\<open>np.expand_dims(a, axis=-1)\<close>\<close>

definition expand_dims_last :: "'a ndarray \<Rightarrow> 'a ndarray" where
  "expand_dims_last a = a\<lparr>shape := shape a @ [1]\<rparr>"

text \<open>
  \<^verbatim>\<open>np.where(a > confidence, 1, 0)\<close> on the class indices, which the comparison reads
  as numbers.
\<close>

definition where_gt_index :: "rat \<Rightarrow> nat ndarray \<Rightarrow> int ndarray" where
  "where_gt_index confidence a =
     \<lparr>shape = shape a, elems = map (\<lambda>v. if confidence < of_nat v then 1 else 0) (elems a)\<rparr>"

text \<open>\<^verbatim>\<open>torch.where(a > confidence, torch.tensor(1), torch.tensor(0))\<close>\<close>

definition where_gt :: "rat \<Rightarrow> rat ndarray \<Rightarrow> int ndarray" where
  "where_gt confidence a =
     \<lparr>shape = shape a, elems = map (\<lambda>v. if confidence < v then 1 else 0) (elems a)\<rparr>"

text \<open>\<^verbatim>\<open>a[idx]\<close>\<close>

definition index0 :: "'a ndarray \<Rightarrow> nat \<Rightarrow> error + 'a ndarray" where
  "index0 a idx =
     (case shape a of
        [] \<Rightarrow> Inl IndexError
      | n # s \<Rightarrow>
          if idx < n then
            Inr \<lparr>shape = s, elems = take (prod_list s) (drop (idx * prod_list s) (elems a))\<rparr>
          else Inl IndexError)"

text \<open>
  \<^verbatim>\<open>t.max(dim=0)[0]\<close>: the greatest value at every position over the first axis; a
  first axis of length 0 raises \<^verbatim>\<open>IndexError\<close>.
\<close>

definition max_dim0 :: "rat ndarray \<Rightarrow> error + rat ndarray" where
  "max_dim0 t =
     (case shape t of
        [] \<Rightarrow> Inr t
      | n # s \<Rightarrow>
          if n = 0 then Inl IndexError
          else let sz = prod_list s;
                   plane = (\<lambda>k. take sz (drop (k * sz) (elems t)))
               in Inr \<lparr>shape = s,
                       elems = foldl (\<lambda>acc k. map2 max acc (plane k)) (plane 0) [1..<n]\<rparr>)"

subsection \<open>Paths\<close>

text \<open>\<^verbatim>\<open>Path(p).name\<close>: what follows the last slash.\<close>

definition path_name :: "path \<Rightarrow> string" where
  "path_name p = rev (takeWhile (\<lambda>c. c \<noteq> CHR ''/'') (rev p))"

text \<open>
  \<^verbatim>\<open>Path(p).stem\<close>: the name without its last suffix, where \<open>i\<close> is \<^verbatim>\<open>name.rfind('.')\<close>
  and a dot in first or last place starts no suffix.
\<close>

definition stem :: "path \<Rightarrow> string" where
  "stem p =
     (let name = path_name p
      in if CHR ''.'' \<in> set name then
           let i = length name - 1 - length (takeWhile (\<lambda>c. c \<noteq> CHR ''.'') (rev name))
           in if 0 < i \<and> i < length name - 1 then take i name else name
         else name)"

definition output_file :: "path \<Rightarrow> path \<Rightarrow> path" where
  "output_file prediction_path p = prediction_path @ ''/'' @ stem p @ ''.png''"

subsection \<open>The two prediction paths\<close>

text \<open>Lines 69 to 73: the masks of one batch are saved.\<close>

definition save_batch :: "path \<Rightarrow> int ndarray \<Rightarrow> path list \<Rightarrow> unit act" where
  "save_batch prediction_path preds image_batch =
     for_each (\<lambda>(idx, p).
        bind_io (lift_io (index0 preds idx)) (\<lambda>mask.
        do_call (SaveMask mask (output_file prediction_path p))))
       (List.enumerate 0 image_batch)"

text \<open>Lines 62 to 67: from the images of a batch to its thresholded predictions.\<close>

definition dense_preds ::
  "(rat ndarray \<Rightarrow> rat ndarray) \<Rightarrow> rat \<Rightarrow> rat ndarray \<Rightarrow> error + int ndarray" where
  "dense_preds model_predict confidence images =
     (let preds = model_predict images
      in case argmax_last preds of
           Inl e \<Rightarrow> Inl e
         | Inr preds \<Rightarrow>
             let preds = expand_dims_last preds
             in Inr (where_gt_index confidence preds))"

text \<open>Lines 58 to 73: one batch of the dense classifier.\<close>

definition keras_batch ::
  "inference_externals \<Rightarrow> (rat ndarray \<Rightarrow> rat ndarray) \<Rightarrow> path \<Rightarrow> rat \<Rightarrow> path list
     \<Rightarrow> unit act" where
  "keras_batch X model_predict prediction_path confidence image_batch =
     (let images = open_images X image_batch
      in bind_io (lift_io (reshape_images IMAGE_SIZE images)) (\<lambda>images.
         bind_io (lift_io (dense_preds model_predict confidence images)) (\<lambda>preds.
         save_batch prediction_path preds image_batch)))"

text \<open>\<^verbatim>\<open>image_paths[BATCH_SIZE * i : BATCH_SIZE * (i + 1)]\<close> for every \<open>i\<close> of the range.\<close>

definition batches :: "path list \<Rightarrow> path list list" where
  "batches image_paths =
     map (\<lambda>i. take BATCH_SIZE (drop (BATCH_SIZE * i) image_paths))
       [0..<(length image_paths + BATCH_SIZE - 1) div BATCH_SIZE]"

text \<open>Lines 80 and 81: from the result of one image to its thresholded prediction.\<close>

definition sam_preds :: "rat \<Rightarrow> rat ndarray option \<Rightarrow> error + int ndarray" where
  "sam_preds confidence masks =
     (case masks of
        None \<Rightarrow> Inl AttributeError
      | Some data \<Rightarrow>
          (case max_dim0 data of
             Inl e \<Rightarrow> Inl e
           | Inr preds \<Rightarrow> Inr (where_gt confidence preds)))"

text \<open>\<^verbatim>\<open>xs[i]\<close>\<close>

definition item :: "'a list \<Rightarrow> nat \<Rightarrow> error + 'a" where
  "item xs i = (if i < length xs then Inr (xs ! i) else Inl IndexError)"

text \<open>Lines 80 to 83: one result of the promptable segmenter.\<close>

definition sam_result :: "path \<Rightarrow> rat \<Rightarrow> path list \<Rightarrow> nat \<times> rat ndarray option \<Rightarrow> unit act" where
  "sam_result prediction_path confidence image_paths =
     (\<lambda>(i, r).
        bind_io (lift_io (sam_preds confidence r)) (\<lambda>preds.
        bind_io (lift_io (item image_paths i)) (\<lambda>p.
        do_call (SaveMask preds (output_file prediction_path p)))))"

subsection \<open>The function\<close>

text \<open>
  Lines 56 to 85, the dispatch on the class of the model. The \<^verbatim>\<open>print\<close> calls of
  \<^verbatim>\<open>predict\<close> report the time taken and are left out.
\<close>

definition dispatch ::
  "inference_externals \<Rightarrow> model \<Rightarrow> path list \<Rightarrow> path \<Rightarrow> rat \<Rightarrow> unit act" where
  "dispatch X model image_paths prediction_path confidence =
     (case model of
        KerasModel model_predict \<Rightarrow>
          for_each (keras_batch X model_predict prediction_path confidence)
            (batches image_paths)
      | YOLO \<Rightarrow> lift_io (Inl NotImplementedError)
      | FastSAM run \<Rightarrow>
          for_each (sam_result prediction_path confidence image_paths)
            (List.enumerate 0 (run image_paths))
      | OtherModel \<Rightarrow> lift_io (Inl (RuntimeError ''Loaded model is not supported'')))"

definition is_keras :: "model \<Rightarrow> bool" where
  "is_keras model = (case model of KerasModel _ \<Rightarrow> True | _ \<Rightarrow> False)"

definition predict :: "inference_externals \<Rightarrow> path \<Rightarrow> path \<Rightarrow> path \<Rightarrow> rat \<Rightarrow> pyval act" where
  "predict X checkpoint_path input_path prediction_path confidence =
     (let device = (if cuda_is_available X then ''cuda'' else ''cpu'');
          model = initialize_model X checkpoint_path device
      in bind_io (do_call (Makedirs prediction_path)) (\<lambda>_.
         let image_paths = glob X (input_path @ ''/*.png'')
         in bind_io (dispatch X model image_paths prediction_path confidence) (\<lambda>_.
            bind_io (if is_keras model then do_call ClearSession else return_io ()) (\<lambda>_.
            bind_io (do_call (Georeference prediction_path prediction_path True)) (\<lambda>_.
            bind_io (do_call (RemoveFiles (prediction_path @ ''/*.xml''))) (\<lambda>_.
            bind_io (do_call (RemoveFiles (prediction_path @ ''/*.png''))) (\<lambda>_.
            return_io PyNone)))))))"

section \<open>Example data\<close>

text \<open>
  A small concrete setting on which the definitions are evaluated: chips of two by two
  pixels, a rasterizer that marks no pixel, and web-mercator as the one metric
  reference system.
\<close>

definition demo_externals :: externals where
  "demo_externals =
     \<lparr>get_tq_chip_label_pairs = (\<lambda>f chip_dir label_dir.
          filter (\<lambda>(c, l). is_file f c \<and> is_file f l)
            [(chip_dir @ ''/a.tif'', label_dir @ ''/a.geojson''),
             (chip_dir @ ''/b.tif'', label_dir @ ''/b.geojson'')]),
      construct_mask_filepath = (\<lambda>out_dir chip. out_dir @ ''/'' @ stem chip @ ''.mask.tif''),
      crs_is_metric = (\<lambda>c. c = Some (EPSG 3857)),
      reproject = (\<lambda>s t g. g),
      df_to_px_mask = (\<lambda>df out_file shp reference_im boundary_width contact_spacing meters.
          case shp of (h, w) \<Rightarrow> Inr \<lparr>shape = [h, w, 3], elems = replicate (h * w * 3) 0\<rparr>)\<rparr>"

definition demo_profile :: "crs \<Rightarrow> profile" where
  "demo_profile c =
     \<lparr>driver = ''GTiff'', dtype = ''uint16'', nodata = Some 0, width = 2, height = 2,
      count = 3, crs = Some c, transform = [1 / 4, 0, 0, 0, - 1 / 4, 0]\<rparr>"

definition demo_chip :: "crs \<Rightarrow> rat \<Rightarrow> dataset" where
  "demo_chip c r =
     \<lparr>meta = demo_profile c, res = (r, r),
      bands = \<lparr>shape = [3, 2, 2], elems = replicate 12 7\<rparr>\<rparr>"

definition demo_labels :: "crs option \<Rightarrow> geodataframe" where
  "demo_labels c =
     \<lparr>gdf_crs = c,
      geometries = [Some (Polygon [(0, 0), (1, 0), (1, 1)]), None, Some (Polygon [])]\<rparr>"

text \<open>
  Two pairs of a chip and a label file, both chips in the metric system; the argument is
  the label frame of pair \<open>a\<close>.
\<close>

definition demo_fs :: "geodataframe \<Rightarrow> filesystem" where
  "demo_fs labels_a =
     [''chips/a.tif'' \<mapsto> File (Raster (demo_chip (EPSG 3857) (1 / 4))),
      ''labels/a.geojson'' \<mapsto> File (Vector labels_a),
      ''chips/b.tif'' \<mapsto> File (Raster (demo_chip (EPSG 3857) (1 / 2))),
      ''labels/b.geojson'' \<mapsto> File (Vector (demo_labels (Some (EPSG 3857))))]"

definition demo_world :: "geodataframe \<Rightarrow> world" where
  "demo_world labels_a = \<lparr>fs = demo_fs labels_a, stdout = [], accesses = []\<rparr>"

text \<open>
  The worlds of the examples: \<open>fresh_world\<close>, where the labels of pair \<open>a\<close> are in a
  geographic system and are reprojected; \<open>broken_world\<close>, where they declare no reference
  system and cannot be; \<open>empty_world\<close>, with no file at all. \<open>demo_run\<close> is the call of
  the docstring with the default widths.
\<close>

definition fresh_world :: world where
  "fresh_world = demo_world (demo_labels (Some (EPSG 4326)))"

definition broken_world :: world where
  "broken_world = demo_world (demo_labels None)"

definition empty_world :: world where
  "empty_world = \<lparr>fs = Map.empty, stdout = [], accesses = []\<rparr>"

definition demo_run :: "world \<Rightarrow> (error + pyval) \<times> world" where
  "demo_run =
     multimasks_from_polygons demo_externals ''labels'' ''chips'' ''masks''
       (PyFloat (3 / 4)) (PyFloat (1 / 2))"

text \<open>
  For inference: a directory with two images, no CUDA, a loader that returns the given
  model, and an image reader that returns black images. The dense classifier scores two
  classes on one row of two pixels per image; the segmenter finds two instances on one
  row of two pixels in every image.
\<close>

definition demo_inference :: "model \<Rightarrow> inference_externals" where
  "demo_inference m =
     \<lparr>cuda_is_available = False,
      initialize_model = (\<lambda>checkpoint_path device. m),
      glob = (\<lambda>pattern. [''in/t1.png'', ''in/t2.png'']),
      open_images = (\<lambda>paths.
        \<lparr>shape = [length paths, 256, 256, 3],
         elems = replicate (length paths * 196608) 0\<rparr>)\<rparr>"

definition demo_keras :: model where
  "demo_keras =
     KerasModel (\<lambda>images.
       \<lparr>shape = [2, 1, 2, 2],
        elems = [1 / 5, 4 / 5, 9 / 10, 1 / 10, 1 / 2, 1 / 2, 3 / 10, 7 / 10]\<rparr>)"

definition demo_masks :: "rat ndarray" where
  "demo_masks = \<lparr>shape = [2, 1, 2], elems = [0, 1 / 2, 1, 1 / 2]\<rparr>"

definition demo_sam :: model where
  "demo_sam = FastSAM (\<lambda>image_paths. map (\<lambda>p. Some demo_masks) image_paths)"

text \<open>
  How often the parameters were printed: each block of parameter lines holds the
  boundary-width line once. And the labels of all the parameter lines.
\<close>

definition params_printed :: "(string \<times> pynum) list \<Rightarrow> nat" where
  "params_printed ls =
     length (filter (\<lambda>(label, v).
        label = ''Multimasks labels , Input boundary_width in meters :''
        \<or> label = ''Multimasks labels , Input boundary_width in pixel :'') ls)"

definition parameter_labels :: "string set" where
  "parameter_labels =
     {''Resolution (pixel width) in meter :'',
      ''Multimasks labels , Input boundary_width in meters :'',
      ''Multimasks labels , Input contact_spacing in meters :'',
      ''Multimasks labels , Input boundary_width in pixel :'',
      ''Multimasks labels , Input contact_spacing in pixel :''}"

text \<open>
  What line 159 to 165 make of a chip: \<open>mask_of src d\<close> holds when the raster \<open>d\<close> has
  the metadata of \<open>src\<close> with one band, the data type \<^verbatim>\<open>uint8\<close> and no nodata value, the
  pixel size of \<open>src\<close>, and a band array of shape \<open>(1, H, W)\<close>.
\<close>

definition mask_of :: "dataset \<Rightarrow> dataset \<Rightarrow> bool" where
  "mask_of src d =
     (meta d = (meta src)\<lparr>count := 1, dtype := ''uint8'', nodata := None\<rparr>
      \<and> res d = res src
      \<and> (case shape (bands d) of
            [n, h, w] \<Rightarrow> n = 1 \<and> length (elems (bands d)) = h * w
          | _ \<Rightarrow> False))"

section \<open>Floats: the exponent and the rounding error\<close>

lemma bitlen_powi:
  assumes "0 < n"
  shows "(2::rat) powi (bitlen n - 1) \<le> of_int n \<and> (of_int n :: rat) < 2 powi (bitlen n)"
proof -
  from bitlen_bounds [OF assms] have b: "2 ^ nat (bitlen n - 1) \<le> n" "n < 2 ^ nat (bitlen n)"
    by simp_all
  from assms bitlen_nonneg [of n] bitlen_eq_zero_iff [of n] have pos: "0 < bitlen n"
    by linarith
  then have e: "(2::rat) powi (bitlen n - 1) = 2 ^ nat (bitlen n - 1)"
    "(2::rat) powi (bitlen n) = 2 ^ nat (bitlen n)"
    by (simp_all add: power_int_def)
  from b(1) have "(of_int (2 ^ nat (bitlen n - 1)) :: rat) \<le> of_int n"
    by (simp only: of_int_le_iff)
  moreover from b(2) have "(of_int n :: rat) < of_int (2 ^ nat (bitlen n))"
    by (simp only: of_int_less_iff)
  ultimately show ?thesis unfolding e by simp
qed

lemma exponent_bounds:
  assumes "x \<noteq> 0"
  shows "2 powi (exponent x) \<le> \<bar>x\<bar> \<and> \<bar>x\<bar> < 2 powi (exponent x + 1)"
proof -
  obtain p q where pq: "quotient_of \<bar>x\<bar> = (p, q)" by fastforce
  from quotient_of_denom_pos [OF pq] have q: "0 < q" .
  from quotient_of_div [OF pq] have x: "\<bar>x\<bar> = of_int p / of_int q" .
  from assms have "0 < \<bar>x\<bar>" by simp
  with x q have p: "0 < p" by (simp add: zero_less_divide_iff)
  define k where "k = bitlen p - bitlen q"
  from bitlen_powi [OF p] bitlen_powi [OF q]
  have bp: "(2::rat) powi (bitlen p - 1) \<le> of_int p" "(of_int p :: rat) < 2 powi (bitlen p)"
    and bq: "(2::rat) powi (bitlen q - 1) \<le> of_int q" "(of_int q :: rat) < 2 powi (bitlen q)"
    by simp_all
  have qpos: "(0::rat) < of_int q" using q by simp
  have ppos: "(0::rat) < of_int p" using p by simp
  have up: "\<bar>x\<bar> < 2 powi (k + 1)"
  proof -
    have "of_int p / of_int q < (2::rat) powi (bitlen p) / of_int q"
      using bp(2) qpos by (simp add: divide_strict_right_mono)
    also have "\<dots> \<le> 2 powi (bitlen p) / 2 powi (bitlen q - 1)"
      using bq(1) qpos by (intro divide_left_mono) (simp_all add: zero_less_power_int)
    also have "\<dots> = 2 powi (bitlen p - (bitlen q - 1))"
      by (subst power_int_diff) simp_all
    also have "\<dots> = 2 powi (k + 1)"
      by (simp add: k_def algebra_simps)
    finally show ?thesis using x by simp
  qed
  have low: "2 powi (k - 1) < \<bar>x\<bar>"
  proof -
    have "(2::rat) powi (k - 1) = 2 powi ((bitlen p - 1) - bitlen q)"
      by (simp add: k_def algebra_simps)
    also have "\<dots> = 2 powi (bitlen p - 1) / 2 powi (bitlen q)"
      by (subst power_int_diff) simp_all
    also have "\<dots> < 2 powi (bitlen p - 1) / of_int q"
      using bq(2) qpos by (intro divide_strict_left_mono) (simp_all add: zero_less_power_int)
    also have "\<dots> \<le> of_int p / of_int q"
      using bp(1) qpos by (simp add: divide_right_mono)
    finally show ?thesis using x by simp
  qed
  have e: "exponent x = (if 2 powi k \<le> \<bar>x\<bar> then k else k - 1)"
    by (simp add: exponent_def pq k_def Let_def)
  show ?thesis
  proof (cases "2 powi k \<le> \<bar>x\<bar>")
    case True
    with e up show ?thesis by simp
  next
    case False
    with e low show ?thesis by simp
  qed
qed


lemma round_half_even_near: "\<bar>of_int (round_half_even q) - q\<bar> \<le> 1 / 2"
proof -
  have "of_int \<lfloor>q\<rfloor> \<le> q" "q < of_int \<lfloor>q\<rfloor> + 1" by linarith+
  then show ?thesis
    by (auto simp: round_half_even_def Let_def)
qed

lemma binary64_near:
  assumes "binary64 x = Finite y" "x \<noteq> 0"
  shows "\<exists>n. y = of_int n * 2 powi (max (exponent x) (- 1022) - 52)
     \<and> \<bar>y - x\<bar> \<le> 2 powi (max (exponent x) (- 1022) - 52) / 2"
proof -
  define u :: rat where "u = 2 powi (max (exponent x) (- 1022) - 52)"
  have u: "0 < u" by (simp add: u_def zero_less_power_int)
  from assms have y: "y = of_int (round_half_even (x / u)) * u"
    by (auto simp: binary64_def Let_def u_def split: if_splits)
  have "\<bar>y - x\<bar> = \<bar>of_int (round_half_even (x / u)) - x / u\<bar> * u"
  proof -
    have "y - x = (of_int (round_half_even (x / u)) - x / u) * u"
      using u by (simp add: y algebra_simps)
    then show ?thesis using u by (simp add: abs_mult)
  qed
  also have "\<dots> \<le> (1 / 2) * u"
    using round_half_even_near [of "x / u"] u by (intro mult_right_mono) simp_all
  finally have "\<bar>y - x\<bar> \<le> u / 2" by simp
  with y show ?thesis unfolding u_def by blast
qed

section \<open>Unit reconciliation\<close>

lemma align_crs_result:
  "align_crs L gdf0 reference_im = Inr gdf \<Longrightarrow> gdf_crs gdf = crs (meta reference_im)"
  by (auto simp: align_crs_def to_crs_def split: if_splits option.splits)








section \<open>The batch driver: files\<close>

lemma bind_ioE:
  assumes "bind_io m f w = (r, w')"
  obtains (raised) e where "m w = (Inl e, w')" "r = Inl e"
  | (went_on) x w1 where "m w = (Inr x, w1)" "f x w1 = (r, w')"
  using assms by (auto simp: bind_io_def split: prod.splits sum.splits)

lemma lift_ioD: "lift_io v w = (r, w') \<Longrightarrow> r = v \<and> w' = w"
  by (simp add: lift_io_def)

lemma return_ioD: "return_io v w = (r, w') \<Longrightarrow> r = Inr v \<and> w' = w"
  by (simp add: return_io_def)

lemma rio_openD:
  "rio_open p w = (r, w') \<Longrightarrow>
   w' = w\<lparr>accesses := accesses w @ [Reads p]\<rparr> \<and>
   (case r of Inl e \<Rightarrow> True | Inr d \<Rightarrow> fs w p = Some (File (Raster d)))"
  by (auto simp: rio_open_def split: option.splits node.splits content.splits)

lemma read_fileD:
  "read_file p w = (r, w') \<Longrightarrow> w' = w\<lparr>accesses := accesses w @ [Reads p]\<rparr>"
  by (auto simp: read_file_def split: option.splits node.splits content.splits)

lemma get_rasterio_shape_and_transformD:
  "get_rasterio_shape_and_transform p w = (r, w') \<Longrightarrow>
   w' = w\<lparr>accesses := accesses w @ [Reads p]\<rparr>"
  by (auto simp: get_rasterio_shape_and_transform_def return_io_def
      elim!: bind_ioE dest!: rio_openD)

lemma reconcileD:
  "reconcile L gdf im bw cs fi w = (r, w') \<Longrightarrow>
   fs w' = fs w \<and> accesses w' = accesses w \<and>
   (\<not> fi \<longrightarrow> w' = w) \<and>
   (case r of Inl e \<Rightarrow> w' = w | Inr (meters, b, c, fi') \<Rightarrow> \<not> fi')"
  by (auto simp: reconcile_def bind_io_def return_io_def lift_io_def print_line_def Let_def
      split: if_splits sum.splits)

lemma write_maskD:
  "write_mask c m a w = (r, w') \<Longrightarrow>
   stdout w' = stdout w \<and>
   (case r of
      Inl e \<Rightarrow> fs w' = fs w
    | Inr _ \<Rightarrow> (\<exists>src n. fs w c = Some (File (Raster src)) \<and> shape0 a = Inr n \<and>
         fs w m \<noteq> Some Dir \<and>
         fs w' = (fs w)(m \<mapsto> File (Raster \<lparr>meta = (meta src)\<lparr>count := n, dtype := ''uint8'', nodata := None\<rparr>,
             res = res src, bands = a\<rparr>)) \<and>
         accesses w' = accesses w @ [Reads c, Writes m]))"
  by (auto simp: write_mask_def rio_write_def lift_io_def Let_def
      elim!: bind_ioE dest!: rio_openD split: option.splits node.splits sum.splits)

lemma load_pairD:
  "load_pair L j c w = (r, w') \<Longrightarrow>
   fs w' = fs w \<and> stdout w' = stdout w \<and>
   (case r of
      Inl e \<Rightarrow> True
    | Inr (s, gdf, im) \<Rightarrow>
        fs w c = Some (File (Raster im)) \<and> s = (height (meta im), width (meta im))
        \<and> gdf_crs gdf = crs (meta im)
        \<and> accesses w' = accesses w @ [Reads c, Reads j, Reads c])"
  unfolding load_pair_def Let_def get_rasterio_shape_and_transform_def
  by (auto simp: return_io_def elim!: bind_ioE dest!: rio_openD read_fileD lift_ioD
      dest: align_crs_result [OF sym] split: sum.splits)

lemma multimask_to_sparse_multimask_shape:
  "multimask_to_sparse_multimask a = Inr b \<Longrightarrow>
   \<exists>h w. shape a = [h, w, 3] \<and> shape b = [h, w, 1] \<and> length (elems b) = h * w"
  by (auto simp: multimask_to_sparse_multimask_def split: list.splits if_splits)

lemma length_plane: "length (concat (map (\<lambda>y. map (f y) [0..<w]) [0..<h])) = h * w"
  by (induction h) simp_all

lemma to_channels_first_shape:
  "to_channels_first b = Inr a \<Longrightarrow> shape b = [h, w, 1] \<Longrightarrow>
   shape a = [1, h, w] \<and> length (elems a) = h * w"
  by (auto simp: to_channels_first_def length_plane)

lemma encode_pairD:
  assumes "encode_pair L c m s gdf im meters b cs w = (r, w')"
  shows "stdout w' = stdout w \<and>
   (case r of
      Inl e \<Rightarrow> fs w' = fs w
    | Inr _ \<Rightarrow>
        (\<exists>src onehot a h wd.
           fs w c = Some (File (Raster src)) \<and> fs w m \<noteq> Some Dir
           \<and> df_to_px_mask L (explode gdf) m s im b cs meters = Inr onehot
           \<and> shape onehot = [h, wd, 3] \<and> shape a = [1, h, wd] \<and> length (elems a) = h * wd
           \<and> fs w' = (fs w)(m \<mapsto> File (Raster
                 \<lparr>meta = (meta src)\<lparr>count := 1, dtype := ''uint8'', nodata := None\<rparr>,
                  res = res src, bands = a\<rparr>))
           \<and> accesses w' = accesses w @ [Reads c, Writes m]))"
proof -
  from assms show ?thesis
    unfolding encode_pair_def Let_def
  proof (elim bind_ioE, goal_cases)
    case (1 e)
    then show ?case by (auto dest!: lift_ioD)
  next
    case (2 onehot w1 e)
    then show ?case by (auto dest!: lift_ioD)
  next
    case (3 onehot w1 sp w2 e)
    then show ?case by (auto dest!: lift_ioD)
  next
    case (4 onehot w1 sp w2 a w3)
    from 4(1) have oh: "df_to_px_mask L (explode gdf) m s im b cs meters = Inr onehot"
      and w1: "w1 = w" by (auto dest!: lift_ioD)
    from 4(2) have sp: "multimask_to_sparse_multimask onehot = Inr sp" and w2: "w2 = w1"
      by (auto dest!: lift_ioD)
    from 4(3) have a: "to_channels_first sp = Inr a" and w3: "w3 = w2"
      by (auto dest!: lift_ioD)
    from multimask_to_sparse_multimask_shape [OF sp] obtain h wd where
      hw: "shape onehot = [h, wd, 3]" "shape sp = [h, wd, 1]" by blast
    from to_channels_first_shape [OF a hw(2)] have sa: "shape a = [1, h, wd]"
      "length (elems a) = h * wd" by simp_all
    then have "shape0 a = Inr 1" by (simp add: shape0_def)
    with write_maskD [OF 4(4)] w1 w2 w3 oh hw sa show ?case
      by (cases r) auto
  qed
qed

lemma loop_body_cases:
  assumes "loop_body L cs bw j c m fi w = (r, w')"
  obtains (load) e where "load_pair L j c w = (Inl e, w')" "r = Inl e"
  | (units) s gdf im wa e where "load_pair L j c w = (Inr (s, gdf, im), wa)"
      "reconcile L gdf im bw cs fi wa = (Inl e, w')" "r = Inl e"
  | (encode) s gdf im wa meters b cw fi' wb e where "load_pair L j c w = (Inr (s, gdf, im), wa)"
      "reconcile L gdf im bw cs fi wa = (Inr (meters, b, cw, fi'), wb)"
      "encode_pair L c m s gdf im meters b cw wb = (Inl e, w')" "r = Inl e"
  | (written) s gdf im wa meters b cw fi' wb u where "load_pair L j c w = (Inr (s, gdf, im), wa)"
      "reconcile L gdf im bw cs fi wa = (Inr (meters, b, cw, fi'), wb)"
      "encode_pair L c m s gdf im meters b cw wb = (Inr u, w')" "r = Inr fi'"
  using assms unfolding loop_body_def
  by (auto simp: bind_io_def return_io_def split: prod.splits sum.splits)

lemma loop_body_fs_other:
  assumes "loop_body L cs bw j c m fi w = (r, w')" "p \<noteq> m"
  shows "fs w' p = fs w p"
  using assms(1)
proof (cases rule: loop_body_cases)
  case (load e)
  then show ?thesis by (auto dest!: load_pairD)
next
  case (units s gdf im wa e)
  then show ?thesis by (auto dest!: load_pairD reconcileD)
next
  case (encode s gdf im wa meters b cw fi' wb e)
  then show ?thesis by (auto dest!: load_pairD reconcileD encode_pairD)
next
  case (written s gdf im wa meters b cw fi' wb u)
  with assms(2) show ?thesis by (auto dest!: load_pairD reconcileD encode_pairD)
qed

lemma loop_body_raised:
  assumes "loop_body L cs bw j c m fi w = (Inl e, w')"
  shows "fs w' = fs w"
  using assms
  by (cases rule: loop_body_cases) (auto dest!: load_pairD reconcileD encode_pairD)

lemma loop_body_done:
  assumes "loop_body L cs bw j c m fi w = (Inr fi', w')"
  shows "\<not> fi' \<and> is_file (fs w') m"
  using assms
  by (cases rule: loop_body_cases)
    (auto simp: is_file_def dest!: load_pairD reconcileD encode_pairD)

lemma loop_body_quiet:
  assumes "loop_body L cs bw j c m False w = (r, w')"
  shows "stdout w' = stdout w"
  using assms
  by (cases rule: loop_body_cases) (auto dest!: load_pairD reconcileD encode_pairD)

lemma loop_body_dir:
  assumes "loop_body L cs bw j c m fi w = (r, w')" "fs w m = Some Dir"
  shows "fs w' = fs w"
  using assms(1)
proof (cases rule: loop_body_cases)
  case (written s gdf im wa meters b cw fi' wb u)
  with assms(2) show ?thesis by (auto dest!: load_pairD reconcileD encode_pairD)
qed (auto dest!: load_pairD reconcileD encode_pairD)

lemma loop_body_keeps:
  assumes "loop_body L cs bw j c m fi w = (r, w')" "\<not> is_file (fs w) m" "fs w p = Some n"
  shows "fs w' p = Some n"
proof (cases "p = m")
  case True
  with assms(2,3) have "fs w m = Some Dir"
    by (cases n) (auto simp: is_file_def)
  from loop_body_dir [OF assms(1) this] assms(3) show ?thesis by simp
next
  case False
  from loop_body_fs_other [OF assms(1) False] assms(3) show ?thesis by simp
qed

lemma mask_loop_keeps:
  "mask_loop L cs bw ts fi w = (r, w') \<Longrightarrow> fs w p = Some n \<Longrightarrow> fs w' p = Some n"
proof (induction ts arbitrary: fi w)
  case Nil
  then show ?case by simp
next
  case (Cons t ts)
  obtain j c m where t: "t = (j, c, m)" by (cases t)
  show ?case
  proof (cases "is_file (fs w) m")
    case True
    with Cons t show ?thesis by simp
  next
    case False
    obtain r1 w1 where body: "loop_body L cs bw j c m fi w = (r1, w1)" by fastforce
    from loop_body_keeps [OF body False Cons.prems(2)] have kept: "fs w1 p = Some n" .
    show ?thesis
    proof (cases r1)
      case (Inl e)
      with Cons.prems(1) t False body kept show ?thesis by simp
    next
      case (Inr fi1)
      with Cons.prems(1) t False body have "mask_loop L cs bw ts fi1 w1 = (r, w')" by simp
      from Cons.IH [OF this kept] show ?thesis .
    qed
  qed
qed

lemma is_file_kept: "is_file f p \<Longrightarrow> \<exists>n. f p = Some n \<and> (\<forall>g. g p = Some n \<longrightarrow> is_file g p)"
  by (auto simp: is_file_def split: option.splits node.splits)

lemma mask_loop_keeps_file:
  "mask_loop L cs bw ts fi w = (r, w') \<Longrightarrow> is_file (fs w) p \<Longrightarrow> is_file (fs w') p"
  using mask_loop_keeps is_file_kept by metis

lemma mask_loop_done:
  "mask_loop L cs bw ts fi w = (Inr fi', w') \<Longrightarrow> (j, c, m) \<in> set ts \<Longrightarrow> is_file (fs w') m"
proof (induction ts arbitrary: fi w)
  case Nil
  then show ?case by simp
next
  case (Cons t ts)
  obtain j0 c0 m0 where t: "t = (j0, c0, m0)" by (cases t)
  show ?case
  proof (cases "is_file (fs w) m0")
    case True
    with Cons.prems t have run: "mask_loop L cs bw ts fi w = (Inr fi', w')" by simp
    show ?thesis
    proof (cases "(j, c, m) = t")
      case True
      with t have "m = m0" by simp
      with mask_loop_keeps_file [OF run] \<open>is_file (fs w) m0\<close> show ?thesis by simp
    next
      case False
      with Cons.prems(2) have "(j, c, m) \<in> set ts" by simp
      from Cons.IH [OF run this] show ?thesis .
    qed
  next
    case False
    obtain r1 w1 where body: "loop_body L cs bw j0 c0 m0 fi w = (r1, w1)" by fastforce
    with Cons.prems(1) t False obtain fi1 where r1: "r1 = Inr fi1"
      and run: "mask_loop L cs bw ts fi1 w1 = (Inr fi', w')"
      by (cases r1) auto
    show ?thesis
    proof (cases "(j, c, m) = t")
      case True
      with t have "m = m0" by simp
      moreover from body r1 have "is_file (fs w1) m0" using loop_body_done by blast
      ultimately show ?thesis using mask_loop_keeps_file [OF run] by simp
    next
      case False
      with Cons.prems(2) have "(j, c, m) \<in> set ts" by simp
      from Cons.IH [OF run this] show ?thesis .
    qed
  qed
qed

lemma mask_loop_all_skipped:
  "\<forall>t\<in>set ts. is_file (fs w) (snd (snd t)) \<Longrightarrow> mask_loop L cs bw ts fi w = (Inr fi, w)"
  by (induction ts) auto

lemma mask_loop_append:
  "mask_loop L cs bw (ts1 @ ts2) fi w =
     (case mask_loop L cs bw ts1 fi w of
        (Inl e, w1) \<Rightarrow> (Inl e, w1)
      | (Inr fi1, w1) \<Rightarrow> mask_loop L cs bw ts2 fi1 w1)"
  by (induction ts1 arbitrary: fi w) (auto split: prod.splits sum.splits)

lemma mask_loop_without:
  assumes "is_file (fs w) m"
  shows "mask_loop L cs bw (ts1 @ (j, c, m) # ts2) fi w = mask_loop L cs bw (ts1 @ ts2) fi w"
proof -
  obtain r1 w1 where run: "mask_loop L cs bw ts1 fi w = (r1, w1)" by fastforce
  show ?thesis
  proof (cases r1)
    case (Inl e)
    with run show ?thesis by (simp add: mask_loop_append)
  next
    case (Inr fi1)
    from mask_loop_keeps_file [OF run assms] have "is_file (fs w1) m" .
    with run Inr show ?thesis by (simp add: mask_loop_append)
  qed
qed


lemma mkdir_cases:
  "mkdir od w = (r, w0) \<Longrightarrow>
   stdout w0 = stdout w \<and> accesses w0 = accesses w \<and>
   (\<forall>p n. fs w p = Some n \<longrightarrow> fs w0 p = Some n) \<and>
   (\<forall>p. p \<noteq> od \<longrightarrow> fs w0 p = fs w p) \<and>
   (case r of Inl e \<Rightarrow> w0 = w \<and> is_file (fs w) od \<and> e = FileExistsError
            | Inr _ \<Rightarrow> fs w0 od = Some Dir \<and> \<not> is_file (fs w) od)"
  by (auto simp: mkdir_def is_file_def split: option.splits node.splits)

lemma mkdir_again: "fs w od = Some Dir \<Longrightarrow> mkdir od w = (Inr (), w)"
  by (simp add: mkdir_def)

lemma multimasks_unfold:
  "multimasks_from_polygons L pd cd od cs bw w =
     (case mkdir od w of
        (Inl e, w0) \<Rightarrow> (Inl e, w0)
      | (Inr _, w0) \<Rightarrow>
          (case json_chip_mask_zips L od (get_tq_chip_label_pairs L (fs w0) cd pd) of
             Inl e \<Rightarrow> (Inl e, w0)
           | Inr ts \<Rightarrow>
               (case mask_loop L cs bw ts True w0 of
                  (Inl e, w1) \<Rightarrow> (Inl e, w1)
                | (Inr _, w1) \<Rightarrow> (Inr PyNone, w1))))"
  by (simp add: multimasks_from_polygons_def bind_io_def chip_label_pairs_def lift_io_def
      return_io_def split: prod.splits sum.splits)

lemma multimasks_keeps:
  assumes "multimasks_from_polygons L pd cd od cs bw w = (r, w')" "fs w p = Some n"
  shows "fs w' p = Some n"
proof -
  obtain r0 w0 where mk: "mkdir od w = (r0, w0)" by fastforce
  from mkdir_cases [OF mk] assms(2) have kept: "fs w0 p = Some n" by blast
  show ?thesis
  proof (cases r0)
    case (Inl e)
    with assms(1) mk kept show ?thesis by (simp add: multimasks_unfold)
  next
    case (Inr u)
    show ?thesis
    proof (cases "json_chip_mask_zips L od (get_tq_chip_label_pairs L (fs w0) cd pd)")
      case (Inl e)
      with assms(1) mk Inr kept show ?thesis by (simp add: multimasks_unfold)
    next
      case zs: (Inr ts)
      obtain r1 w1 where run: "mask_loop L cs bw ts True w0 = (r1, w1)" by fastforce
      from mask_loop_keeps [OF run kept] have "fs w1 p = Some n" .
      moreover from assms(1) mk Inr zs run have "w' = w1"
        by (cases r1) (simp_all add: multimasks_unfold)
      ultimately show ?thesis by simp
    qed
  qed
qed

lemma multimasks_second_run:
  assumes first: "multimasks_from_polygons L pd cd od cs bw w = (Inr v, w1)"
    and same: "get_tq_chip_label_pairs L (fs w1) cd pd =
               get_tq_chip_label_pairs L (fs (snd (mkdir od w))) cd pd"
  shows "multimasks_from_polygons L pd cd od cs2 bw2 w1 = (Inr PyNone, w1)"
proof -
  obtain r0 w0 where mk: "mkdir od w = (r0, w0)" by fastforce
  from first mk obtain u where r0: "r0 = Inr u"
    by (cases r0) (auto simp: multimasks_unfold)
  from mkdir_cases [OF mk] r0 have dir: "fs w0 od = Some Dir" by simp
  from first mk r0 obtain ts where
    zs: "json_chip_mask_zips L od (get_tq_chip_label_pairs L (fs w0) cd pd) = Inr ts"
    by (cases "json_chip_mask_zips L od (get_tq_chip_label_pairs L (fs w0) cd pd)")
      (auto simp: multimasks_unfold)
  from first mk r0 zs obtain fi where run: "mask_loop L cs bw ts True w0 = (Inr fi, w1)"
    by (auto simp: multimasks_unfold split: prod.splits sum.splits)
  from mask_loop_keeps [OF run dir] have "fs w1 od = Some Dir" .
  then have mk2: "mkdir od w1 = (Inr (), w1)" by (rule mkdir_again)
  from same mk have pairs: "get_tq_chip_label_pairs L (fs w1) cd pd =
      get_tq_chip_label_pairs L (fs w0) cd pd" by simp
  have "\<forall>t\<in>set ts. is_file (fs w1) (snd (snd t))"
    using mask_loop_done [OF run] by auto
  then have "mask_loop L cs2 bw2 ts True w1 = (Inr True, w1)"
    by (rule mask_loop_all_skipped)
  with mk2 pairs zs show ?thesis by (simp add: multimasks_unfold)
qed

text \<open>
  C5. A pair whose mask is a file when the loop begins is skipped as if it were not in
  the list: the run with it equals the run without it, so neither its chip nor its label
  is read and nothing is written for it. No file that exists before a call is changed by
  the call. And when a call has returned and the directories still list the same pairs,
  a second call returns with the world exactly as it found it: no write, no read, no
  line printed, every pair skipped.
\<close>

theorem resumption:
  "(is_file (fs w) m \<longrightarrow>
      mask_loop L cs bw (ts1 @ (j, c, m) # ts2) fi w = mask_loop L cs bw (ts1 @ ts2) fi w)
   \<and> (multimasks_from_polygons L pd cd od cs bw w = (r, w') \<and> is_file (fs w) p \<longrightarrow>
        fs w' p = fs w p)
   \<and> (multimasks_from_polygons L pd cd od cs bw w = (Inr v, w1)
        \<and> get_tq_chip_label_pairs L (fs w1) cd pd =
            get_tq_chip_label_pairs L (fs (snd (mkdir od w))) cd pd \<longrightarrow>
        multimasks_from_polygons L pd cd od cs2 bw2 w1 = (Inr PyNone, w1))"
proof (intro conjI impI)
  assume "is_file (fs w) m"
  then show "mask_loop L cs bw (ts1 @ (j, c, m) # ts2) fi w =
      mask_loop L cs bw (ts1 @ ts2) fi w"
    by (rule mask_loop_without)
next
  assume a: "multimasks_from_polygons L pd cd od cs bw w = (r, w') \<and> is_file (fs w) p"
  then obtain n where "fs w p = Some n"
    by (auto simp: is_file_def split: option.splits)
  with a multimasks_keeps show "fs w' p = fs w p" by metis
next
  assume "multimasks_from_polygons L pd cd od cs bw w = (Inr v, w1)
        \<and> get_tq_chip_label_pairs L (fs w1) cd pd =
            get_tq_chip_label_pairs L (fs (snd (mkdir od w))) cd pd"
  then show "multimasks_from_polygons L pd cd od cs2 bw2 w1 = (Inr PyNone, w1)"
    using multimasks_second_run by blast
qed

text \<open>
  C7. When the pair resolver finds no pair, the call raises at line 63, after the output
  directory has been made and before any pair is touched: nothing is read, written or
  printed. The exception is the \<^verbatim>\<open>ValueError\<close> of unpacking the empty list into
  \<^verbatim>\<open>chip_paths, label_paths\<close>; it is the pairing failure of the specification.
\<close>

theorem no_pairs:
  assumes "\<not> is_file (fs w) od"
    and "get_tq_chip_label_pairs L (fs (snd (mkdir od w))) cd pd = []"
  shows "multimasks_from_polygons L pd cd od cs bw w = (Inl ValueError, snd (mkdir od w))
       \<and> stdout (snd (mkdir od w)) = stdout w
       \<and> accesses (snd (mkdir od w)) = accesses w
       \<and> (\<forall>p. p \<noteq> od \<longrightarrow> fs (snd (mkdir od w)) p = fs w p)"
proof -
  obtain r0 w0 where mk: "mkdir od w = (r0, w0)" by fastforce
  from mkdir_cases [OF mk] assms(1) obtain u where r0: "r0 = Inr u"
    by (cases r0) auto
  from assms(2) mk have "json_chip_mask_zips L od (get_tq_chip_label_pairs L (fs w0) cd pd)
      = Inl ValueError"
    by (simp add: json_chip_mask_zips_def unzip_pairs_def)
  with mk r0 mkdir_cases [OF mk] show ?thesis
    by (simp add: multimasks_unfold)
qed


section \<open>The batch driver: output\<close>

lemma reconcile_prints:
  "reconcile L gdf im bw cs fi w = (r, w') \<Longrightarrow>
   \<exists>new. stdout w' = stdout w @ new \<and> set (map fst new) \<subseteq> parameter_labels \<and>
     params_printed new \<le> 1"
  by (auto simp: reconcile_def bind_io_def return_io_def lift_io_def print_line_def Let_def
      params_printed_def parameter_labels_def split: if_splits sum.splits)


lemma loop_body_prints:
  assumes "loop_body L cs bw j c m fi w = (r, w')"
  shows "\<exists>new. stdout w' = stdout w @ new \<and> set (map fst new) \<subseteq> parameter_labels \<and>
     params_printed new \<le> 1"
  using assms
proof (cases rule: loop_body_cases)
  case (load e)
  then have "stdout w' = stdout w @ []" by (auto dest!: load_pairD)
  then show ?thesis by (intro exI [of _ "[]"]) (simp add: params_printed_def)
next
  case (units s gdf im wa e)
  from reconcile_prints [OF units(2)] load_pairD [OF units(1)] show ?thesis
    by auto
next
  case (encode s gdf im wa meters b cw fi' wb e)
  from reconcile_prints [OF encode(2)] load_pairD [OF encode(1)] encode_pairD [OF encode(3)]
  show ?thesis by (auto split: if_splits)
next
  case (written s gdf im wa meters b cw fi' wb u)
  from reconcile_prints [OF written(2)] load_pairD [OF written(1)]
    encode_pairD [OF written(3)]
  show ?thesis by (auto split: if_splits)
qed

lemma mask_loop_quiet:
  "mask_loop L cs bw ts False w = (r, w') \<Longrightarrow> stdout w' = stdout w"
proof (induction ts arbitrary: w)
  case Nil
  then show ?case by simp
next
  case (Cons t ts)
  obtain j c m where t: "t = (j, c, m)" by (cases t)
  show ?case
  proof (cases "is_file (fs w) m")
    case True
    with Cons t show ?thesis by simp
  next
    case False
    obtain r1 w1 where body: "loop_body L cs bw j c m False w = (r1, w1)" by fastforce
    from loop_body_quiet [OF body] have q: "stdout w1 = stdout w" .
    show ?thesis
    proof (cases r1)
      case (Inl e)
      with Cons.prems t False body q show ?thesis by simp
    next
      case (Inr fi1)
      with body loop_body_done have "\<not> fi1" by blast
      with Cons.prems t False body Inr have "mask_loop L cs bw ts False w1 = (r, w')"
        by simp
      from Cons.IH [OF this] q show ?thesis by simp
    qed
  qed
qed

lemma mask_loop_prints:
  "mask_loop L cs bw ts fi w = (r, w') \<Longrightarrow>
   \<exists>new. stdout w' = stdout w @ new \<and> set (map fst new) \<subseteq> parameter_labels \<and>
     params_printed new \<le> 1"
proof (induction ts arbitrary: w)
  case Nil
  then show ?case by (simp add: params_printed_def)
next
  case (Cons t ts)
  obtain j c m where t: "t = (j, c, m)" by (cases t)
  show ?case
  proof (cases "is_file (fs w) m")
    case True
    with Cons t show ?thesis by simp
  next
    case False
    obtain r1 w1 where body: "loop_body L cs bw j c m fi w = (r1, w1)" by fastforce
    from loop_body_prints [OF body] obtain new where
      new: "stdout w1 = stdout w @ new" "set (map fst new) \<subseteq> parameter_labels"
        "params_printed new \<le> 1" by blast
    show ?thesis
    proof (cases r1)
      case (Inl e)
      with Cons.prems t False body new show ?thesis by auto
    next
      case (Inr fi1)
      with body loop_body_done have "\<not> fi1" by blast
      with Cons.prems t False body Inr have "mask_loop L cs bw ts False w1 = (r, w')"
        by simp
      from mask_loop_quiet [OF this] new show ?thesis by auto
    qed
  qed
qed


lemma no_print:
  "stdout w' = stdout w \<Longrightarrow>
   \<exists>new. stdout w' = stdout w @ new \<and> set (map fst new) \<subseteq> parameter_labels \<and>
     params_printed new \<le> 1"
  by (rule exI [of _ "[]"]) (simp add: params_printed_def)

lemma multimasks_prints:
  assumes "multimasks_from_polygons L pd cd od cs bw w = (r, w')"
  shows "\<exists>new. stdout w' = stdout w @ new \<and> set (map fst new) \<subseteq> parameter_labels \<and>
     params_printed new \<le> 1"
proof -
  obtain r0 w0 where mk: "mkdir od w = (r0, w0)" by fastforce
  from mkdir_cases [OF mk] have out: "stdout w0 = stdout w" by simp
  note silent = no_print [of w' w]
  show ?thesis
  proof (cases r0)
    case (Inl e)
    with assms mk out have "stdout w' = stdout w" by (auto simp: multimasks_unfold)
    with silent show ?thesis by blast
  next
    case (Inr u)
    show ?thesis
    proof (cases "json_chip_mask_zips L od (get_tq_chip_label_pairs L (fs w0) cd pd)")
      case (Inl e)
      with assms mk Inr out have "stdout w' = stdout w" by (auto simp: multimasks_unfold)
      with silent show ?thesis by blast
    next
      case zs: (Inr ts)
      obtain r1 w1 where run: "mask_loop L cs bw ts True w0 = (r1, w1)" by fastforce
      from assms mk Inr zs run have "w' = w1"
        by (cases r1) (simp_all add: multimasks_unfold)
      with mask_loop_prints [OF run] out show ?thesis by simp
    qed
  qed
qed




lemma multimasks_result:
  "multimasks_from_polygons L pd cd od cs bw w = (r, w') \<Longrightarrow> r = Inr PyNone \<or> (\<exists>e. r = Inl e)"
  by (auto simp: multimasks_unfold split: prod.splits sum.splits)

text \<open>
  C8, as the code has it. A call either raises or returns \<^verbatim>\<open>None\<close>, and every line
  it prints is one of the five parameter lines: the numbers of masks written and skipped
  are neither returned nor printed.
\<close>

theorem returns_none:
  assumes "multimasks_from_polygons L pd cd od cs bw w = (r, w')"
  shows "(r = Inr PyNone \<or> (\<exists>e. r = Inl e))
       \<and> (\<exists>new. stdout w' = stdout w @ new \<and> set (map fst new) \<subseteq> parameter_labels)"
  using multimasks_result [OF assms] multimasks_prints [OF assms] by blast


section \<open>The mask file\<close>

lemma loop_body_written:
  assumes "loop_body L cs bw j c m fi w = (Inr fi', w')"
  shows "\<exists>src a h wd.
       fs w c = Some (File (Raster src)) \<and> fs w m \<noteq> Some Dir
     \<and> fs w' m = Some (File (Raster
           \<lparr>meta = (meta src)\<lparr>count := 1, dtype := ''uint8'', nodata := None\<rparr>,
            res = res src, bands = a\<rparr>))
     \<and> shape a = [1, h, wd] \<and> length (elems a) = h * wd
     \<and> ((\<forall>df out s im b c' mt arr.
            df_to_px_mask L df out s im b c' mt = Inr arr \<longrightarrow> shape arr = [fst s, snd s, 3])
          \<longrightarrow> h = height (meta src) \<and> wd = width (meta src))"
  using assms
proof (cases rule: loop_body_cases)
  case (written s gdf im wa meters b cw fi1 wb u)
  from load_pairD [OF written(1)] have l: "fs wa = fs w" "fs w c = Some (File (Raster im))"
    "s = (height (meta im), width (meta im))" by simp_all
  from reconcileD [OF written(2)] have r: "fs wb = fs wa" by simp
  from encode_pairD [OF written(3)] obtain src onehot a h wd where
    e: "fs wb c = Some (File (Raster src))" "fs wb m \<noteq> Some Dir"
       "df_to_px_mask L (explode gdf) m s im b cw meters = Inr onehot"
       "shape onehot = [h, wd, 3]" "shape a = [1, h, wd]" "length (elems a) = h * wd"
       "fs w' = (fs wb)(m \<mapsto> File (Raster
                 \<lparr>meta = (meta src)\<lparr>count := 1, dtype := ''uint8'', nodata := None\<rparr>,
                  res = res src, bands = a\<rparr>))"
    by auto
  from l r e(1) have same: "src = im" by simp
  show ?thesis
  proof (intro exI conjI impI)
    show "fs w c = Some (File (Raster src))" using l same by simp
    show "fs w m \<noteq> Some Dir" using e(2) l r by simp
    show "fs w' m = Some (File (Raster
           \<lparr>meta = (meta src)\<lparr>count := 1, dtype := ''uint8'', nodata := None\<rparr>,
            res = res src, bands = a\<rparr>))" using e(7) by simp
    show "shape a = [1, h, wd]" by (rule e(5))
    show "length (elems a) = h * wd" by (rule e(6))
  next
    assume "\<forall>df out s im b c' mt arr.
            df_to_px_mask L df out s im b c' mt = Inr arr \<longrightarrow> shape arr = [fst s, snd s, 3]"
    with e(3) have "shape onehot = [fst s, snd s, 3]" by blast
    with e(4) l(3) same show "h = height (meta src)" "wd = width (meta src)" by simp_all
  qed
qed simp_all

lemma loop_body_mask_of:
  assumes "loop_body L cs bw j c m fi w = (Inr fi', w')"
  shows "\<exists>src d. fs w c = Some (File (Raster src)) \<and> fs w' m = Some (File (Raster d))
     \<and> mask_of src d"
  using loop_body_written [OF assms] by (auto simp: mask_of_def)

lemma mask_loop_written:
  "mask_loop L cs bw ts fi w = (r, w') \<Longrightarrow> fs w' p \<noteq> fs w p \<Longrightarrow>
   \<exists>j c src d. (j, c, p) \<in> set ts \<and> fs w' c = Some (File (Raster src))
     \<and> fs w' p = Some (File (Raster d)) \<and> mask_of src d"
proof (induction ts arbitrary: fi w)
  case Nil
  then show ?case by simp
next
  case (Cons t ts)
  obtain j0 c0 m0 where t: "t = (j0, c0, m0)" by (cases t)
  show ?case
  proof (cases "is_file (fs w) m0")
    case True
    with Cons.prems t have "mask_loop L cs bw ts fi w = (r, w')" by simp
    from Cons.IH [OF this Cons.prems(2)] show ?thesis by auto
  next
    case False
    obtain r1 w1 where body: "loop_body L cs bw j0 c0 m0 fi w = (r1, w1)" by fastforce
    show ?thesis
    proof (cases r1)
      case (Inl e)
      with Cons.prems(1) t False body have "w' = w1" by simp
      with loop_body_raised body Inl Cons.prems(2) show ?thesis by metis
    next
      case (Inr fi1)
      with Cons.prems(1) t False body have rest: "mask_loop L cs bw ts fi1 w1 = (r, w')"
        by simp
      show ?thesis
      proof (cases "fs w1 p = fs w p")
        case True
        with Cons.prems(2) have "fs w' p \<noteq> fs w1 p" by simp
        from Cons.IH [OF rest this] show ?thesis by auto
      next
        case changed: False
        with loop_body_fs_other [OF body] have p: "p = m0" by blast
        from loop_body_mask_of [OF body [unfolded Inr]] obtain src d where
          w: "fs w c0 = Some (File (Raster src))" "fs w1 m0 = Some (File (Raster d))"
             "mask_of src d" by blast
        from w(1) False have "c0 \<noteq> m0" by (auto simp: is_file_def)
        with loop_body_fs_other [OF body] w(1) have "fs w1 c0 = Some (File (Raster src))"
          by simp
        with mask_loop_keeps [OF rest] w(2) p
        have "fs w' c0 = Some (File (Raster src))" "fs w' p = Some (File (Raster d))"
          by simp_all
        with w(3) t p show ?thesis by auto
      qed
    qed
  qed
qed

text \<open>
  C9. When the body ends for a pair, the mask file holds the metadata of the chip with
  the band count 1, the data type \<^verbatim>\<open>uint8\<close> and no nodata value, and a band array of
  shape \<open>(1, H, W)\<close>, where \<open>(H, W, 3)\<close> is the shape of the one-hot mask; \<open>H\<close> and \<open>W\<close> are
  the height and width of the chip when the rasterizer returns the shape it is asked
  for. Every file that a run of the loop creates is such a mask of the chip of its pair.
\<close>

theorem mask_file_layout:
  "(loop_body L cs bw j c m fi w = (Inr fi', w') \<longrightarrow>
      (\<exists>src a h wd.
         fs w c = Some (File (Raster src))
       \<and> fs w' m = Some (File (Raster
             \<lparr>meta = (meta src)\<lparr>count := 1, dtype := ''uint8'', nodata := None\<rparr>,
              res = res src, bands = a\<rparr>))
       \<and> shape a = [1, h, wd] \<and> length (elems a) = h * wd
       \<and> ((\<forall>df out s im b c' mt arr.
              df_to_px_mask L df out s im b c' mt = Inr arr \<longrightarrow>
              shape arr = [fst s, snd s, 3])
            \<longrightarrow> h = height (meta src) \<and> wd = width (meta src))))
   \<and> (mask_loop L cs bw ts fi w = (r, w') \<and> fs w' p \<noteq> fs w p \<longrightarrow>
        (\<exists>j c src d. (j, c, p) \<in> set ts \<and> fs w' c = Some (File (Raster src))
           \<and> fs w' p = Some (File (Raster d)) \<and> mask_of src d))"
  using loop_body_written [of L cs bw j c m fi w fi' w'] mask_loop_written [of L cs bw ts fi w r w' p]
  by blast

section \<open>The mask encoder on the examples\<close>

lemmas model_defs =
  multimasks_from_polygons_def bind_io_def return_io_def lift_io_def mkdir_def
  chip_label_pairs_def json_chip_mask_zips_def unzip_pairs_def loop_body_def load_pair_def
  encode_pair_def reconcile_def get_rasterio_shape_and_transform_def rio_open_def
  read_file_def rio_write_def write_mask_def print_line_def is_file_def drop_null_def
  drop_empty_def align_crs_def to_crs_def explode_def min_res_def
  multimask_to_sparse_multimask_def to_channels_first_def shape0_def sparse_class_def
  stem_def path_name_def Let_def

lemmas demo_defs =
  demo_externals_def demo_profile_def demo_chip_def demo_labels_def demo_fs_def demo_world_def
  fresh_world_def broken_world_def empty_world_def demo_run_def




lemma fresh_run: "fst (demo_run fresh_world) = Inr PyNone"
  by (simp add: model_defs demo_defs)

lemma fresh_run_pair: "demo_run fresh_world = (Inr PyNone, snd (demo_run fresh_world))"
  using fresh_run by (metis prod.collapse)

theorem resumption_witness:
  "mask_loop demo_externals (PyFloat (3 / 4)) (PyFloat (1 / 2))
     ([] @ (''labels/a.geojson'', ''chips/a.tif'', ''masks/a.mask.tif'')
        # [(''labels/b.geojson'', ''chips/b.tif'', ''masks/b.mask.tif'')])
     True (snd (demo_run fresh_world)) =
   mask_loop demo_externals (PyFloat (3 / 4)) (PyFloat (1 / 2))
     ([] @ [(''labels/b.geojson'', ''chips/b.tif'', ''masks/b.mask.tif'')])
     True (snd (demo_run fresh_world))
   \<and> fs (snd (demo_run fresh_world)) ''chips/a.tif'' = fs fresh_world ''chips/a.tif''
   \<and> demo_run (snd (demo_run fresh_world)) = (Inr PyNone, snd (demo_run fresh_world))"
proof -
  have f1: "is_file (fs (snd (demo_run fresh_world))) ''masks/a.mask.tif''"
    by (simp add: model_defs demo_defs)
  have f2: "is_file (fs fresh_world) ''chips/a.tif''"
    by (simp add: is_file_def demo_defs)
  have f3: "get_tq_chip_label_pairs demo_externals (fs (snd (demo_run fresh_world)))
        ''chips'' ''labels'' =
      get_tq_chip_label_pairs demo_externals (fs (snd (mkdir ''masks'' fresh_world)))
        ''chips'' ''labels''"
    by (simp add: model_defs demo_defs)
  from resumption [where w = "snd (demo_run fresh_world)" and m = "''masks/a.mask.tif''"
      and L = demo_externals and cs = "PyFloat (3 / 4)" and bw = "PyFloat (1 / 2)"
      and ?ts1.0 = "[]" and j = "''labels/a.geojson''" and c = "''chips/a.tif''"
      and ?ts2.0 = "[(''labels/b.geojson'', ''chips/b.tif'', ''masks/b.mask.tif'')]"
      and fi = True]
    f1
  have p1: "mask_loop demo_externals (PyFloat (3 / 4)) (PyFloat (1 / 2))
     ([] @ (''labels/a.geojson'', ''chips/a.tif'', ''masks/a.mask.tif'')
        # [(''labels/b.geojson'', ''chips/b.tif'', ''masks/b.mask.tif'')])
     True (snd (demo_run fresh_world)) =
   mask_loop demo_externals (PyFloat (3 / 4)) (PyFloat (1 / 2))
     ([] @ [(''labels/b.geojson'', ''chips/b.tif'', ''masks/b.mask.tif'')])
     True (snd (demo_run fresh_world))" by blast
  from resumption [where w = fresh_world and L = demo_externals and cs = "PyFloat (3 / 4)"
      and bw = "PyFloat (1 / 2)" and pd = "''labels''" and cd = "''chips''"
      and od = "''masks''" and r = "Inr PyNone" and w' = "snd (demo_run fresh_world)"
      and p = "''chips/a.tif''" and v = PyNone and ?w1.0 = "snd (demo_run fresh_world)"
      and ?cs2.0 = "PyFloat (3 / 4)" and ?bw2.0 = "PyFloat (1 / 2)"]
    fresh_run_pair f2 f3
  have p23: "fs (snd (demo_run fresh_world)) ''chips/a.tif'' = fs fresh_world ''chips/a.tif''
   \<and> demo_run (snd (demo_run fresh_world)) = (Inr PyNone, snd (demo_run fresh_world))"
    unfolding demo_run_def by blast
  from p1 p23 show ?thesis by blast
qed

theorem no_pairs_witness:
  "demo_run empty_world = (Inl ValueError, snd (mkdir ''masks'' empty_world))
   \<and> stdout (snd (mkdir ''masks'' empty_world)) = stdout empty_world
   \<and> accesses (snd (mkdir ''masks'' empty_world)) = accesses empty_world
   \<and> fs (snd (mkdir ''masks'' empty_world)) ''chips/a.tif'' = fs empty_world ''chips/a.tif''"
proof -
  have h1: "\<not> is_file (fs empty_world) ''masks''"
    by (simp add: is_file_def demo_defs)
  have h2: "get_tq_chip_label_pairs demo_externals (fs (snd (mkdir ''masks'' empty_world)))
      ''chips'' ''labels'' = []"
    by (simp add: model_defs demo_defs)
  from no_pairs [OF h1 h2, of "PyFloat (3 / 4)" "PyFloat (1 / 2)"]
  show ?thesis by (simp add: demo_run_def)
qed


theorem counts_not_returned:
  "(case demo_run fresh_world of
      (r, w) \<Rightarrow> (r, stdout w, filter (\<lambda>a. case a of Writes p \<Rightarrow> True | _ \<Rightarrow> False) (accesses w))) =
     (Inr PyNone,
      [(''Resolution (pixel width) in meter :'', PyFloat (1 / 4)),
       (''Multimasks labels , Input boundary_width in meters :'', PyFloat (1 / 2)),
       (''Multimasks labels , Input contact_spacing in meters :'', PyFloat (3 / 4))],
      [Writes ''masks/a.mask.tif'', Writes ''masks/b.mask.tif''])
   \<and> fst (demo_run fresh_world) \<noteq> Inr (PyTuple [2, 0])"
  by (simp add: model_defs demo_defs)

theorem returns_none_witness:
  "(fst (demo_run fresh_world) = Inr PyNone \<or> (\<exists>e. fst (demo_run fresh_world) = Inl e))
   \<and> (\<exists>new. stdout (snd (demo_run fresh_world)) = stdout fresh_world @ new
          \<and> set (map fst new) \<subseteq> parameter_labels)"
  using returns_none [of demo_externals "''labels''" "''chips''" "''masks''" "PyFloat (3 / 4)"
      "PyFloat (1 / 2)" fresh_world "fst (demo_run fresh_world)" "snd (demo_run fresh_world)"]
  by (simp add: demo_run_def)


theorem mask_file_layout_witness:
  "(\<exists>src a. fs (snd (mkdir ''masks'' fresh_world)) ''chips/a.tif'' = Some (File (Raster src))
      \<and> fs (snd (loop_body demo_externals (PyFloat (3 / 4)) (PyFloat (1 / 2))
               ''labels/a.geojson'' ''chips/a.tif'' ''masks/a.mask.tif'' True
               (snd (mkdir ''masks'' fresh_world)))) ''masks/a.mask.tif'' =
          Some (File (Raster
             \<lparr>meta = (meta src)\<lparr>count := 1, dtype := ''uint8'', nodata := None\<rparr>,
              res = res src, bands = a\<rparr>))
      \<and> shape a = [1, height (meta src), width (meta src)])
   \<and> (\<exists>j c src d.
        (j, c, ''masks/b.mask.tif'') \<in> set [(''labels/a.geojson'', ''chips/a.tif'', ''masks/a.mask.tif''),
           (''labels/b.geojson'', ''chips/b.tif'', ''masks/b.mask.tif'')]
      \<and> fs (snd (mask_loop demo_externals (PyFloat (3 / 4)) (PyFloat (1 / 2))
           [(''labels/a.geojson'', ''chips/a.tif'', ''masks/a.mask.tif''),
            (''labels/b.geojson'', ''chips/b.tif'', ''masks/b.mask.tif'')] True
           (snd (mkdir ''masks'' fresh_world)))) c = Some (File (Raster src))
      \<and> fs (snd (mask_loop demo_externals (PyFloat (3 / 4)) (PyFloat (1 / 2))
           [(''labels/a.geojson'', ''chips/a.tif'', ''masks/a.mask.tif''),
            (''labels/b.geojson'', ''chips/b.tif'', ''masks/b.mask.tif'')] True
           (snd (mkdir ''masks'' fresh_world)))) ''masks/b.mask.tif'' = Some (File (Raster d))
      \<and> mask_of src d)"
proof -
  let ?w0 = "snd (mkdir ''masks'' fresh_world)"
  let ?body = "loop_body demo_externals (PyFloat (3 / 4)) (PyFloat (1 / 2))
               ''labels/a.geojson'' ''chips/a.tif'' ''masks/a.mask.tif'' True ?w0"
  let ?ts = "[(''labels/a.geojson'', ''chips/a.tif'', ''masks/a.mask.tif''),
           (''labels/b.geojson'', ''chips/b.tif'', ''masks/b.mask.tif'')]"
  let ?loop = "mask_loop demo_externals (PyFloat (3 / 4)) (PyFloat (1 / 2)) ?ts True ?w0"
  have "fst ?body = Inr False" by (simp add: model_defs demo_defs)
  then have b: "?body = (Inr False, snd ?body)" by (metis prod.collapse)
  have ext: "\<forall>df out s im b c' mt arr.
      df_to_px_mask demo_externals df out s im b c' mt = Inr arr \<longrightarrow>
      shape arr = [fst s, snd s, 3]"
    by (auto simp: demo_externals_def split: prod.splits)
  have l: "?loop = (fst ?loop, snd ?loop)" by simp
  have ch: "fs (snd ?loop) ''masks/b.mask.tif'' \<noteq> fs ?w0 ''masks/b.mask.tif''"
    by (simp add: model_defs demo_defs)
  from mask_file_layout [where L = demo_externals and cs = "PyFloat (3 / 4)"
      and bw = "PyFloat (1 / 2)" and j = "''labels/a.geojson''" and c = "''chips/a.tif''"
      and m = "''masks/a.mask.tif''" and fi = True and w = ?w0 and fi' = False
      and w' = "snd ?body"] b ext
  obtain src a h wd where
    "fs ?w0 ''chips/a.tif'' = Some (File (Raster src))"
    "fs (snd ?body) ''masks/a.mask.tif'' = Some (File (Raster
             \<lparr>meta = (meta src)\<lparr>count := 1, dtype := ''uint8'', nodata := None\<rparr>,
              res = res src, bands = a\<rparr>))"
    "shape a = [1, h, wd]" "h = height (meta src)" "wd = width (meta src)"
    by blast
  then have p1: "\<exists>src a. fs ?w0 ''chips/a.tif'' = Some (File (Raster src))
      \<and> fs (snd ?body) ''masks/a.mask.tif'' =
          Some (File (Raster
             \<lparr>meta = (meta src)\<lparr>count := 1, dtype := ''uint8'', nodata := None\<rparr>,
              res = res src, bands = a\<rparr>))
      \<and> shape a = [1, height (meta src), width (meta src)]"
    by blast
  from mask_file_layout [where L = demo_externals and cs = "PyFloat (3 / 4)"
      and bw = "PyFloat (1 / 2)" and ts = ?ts and fi = True and w = ?w0
      and r = "fst ?loop" and w' = "snd ?loop" and p = "''masks/b.mask.tif''"] l ch
  have p2: "\<exists>j c src d. (j, c, ''masks/b.mask.tif'') \<in> set ?ts
      \<and> fs (snd ?loop) c = Some (File (Raster src))
      \<and> fs (snd ?loop) ''masks/b.mask.tif'' = Some (File (Raster d)) \<and> mask_of src d"
    by blast
  from p1 p2 show ?thesis by blast
qed

section \<open>Inference\<close>

lemma predict_unfold:
  "predict X cp ip pp c cs =
     (case dispatch X (initialize_model X cp (if cuda_is_available X then ''cuda'' else ''cpu''))
             (glob X (ip @ ''/*.png'')) pp c (cs @ [Makedirs pp]) of
        (Inl e, cs') \<Rightarrow> (Inl e, cs')
      | (Inr _, cs') \<Rightarrow>
          (Inr PyNone,
           cs' @ (if is_keras (initialize_model X cp
                      (if cuda_is_available X then ''cuda'' else ''cpu''))
                  then [ClearSession] else [])
               @ [Georeference pp pp True, RemoveFiles (pp @ ''/*.xml''),
                  RemoveFiles (pp @ ''/*.png'')]))"
  by (simp add: predict_def bind_io_def do_call_def return_io_def Let_def
      split: prod.splits sum.splits)

lemma plane_nth:
  "i < sz \<Longrightarrow> k < n \<Longrightarrow> length xs = n * sz \<Longrightarrow>
   take sz (drop (k * sz) xs) ! i = xs ! (k * sz + i)"
  by simp

lemma plane_length:
  assumes "k < n" "length xs = n * sz"
  shows "length (take sz (drop (k * sz) xs)) = sz"
proof -
  from assms(1) have "Suc k \<le> n" by simp
  then have "Suc k * sz \<le> n * sz" by (rule mult_le_mono1)
  then have "sz \<le> n * sz - k * sz" by simp
  with assms(2) show ?thesis by simp
qed

lemma fold_planes:
  assumes len: "length xs = n * sz"
  shows "Suc m \<le> n \<Longrightarrow>
     length (foldl (\<lambda>acc k. map2 max acc (take sz (drop (k * sz) xs)))
               (take sz (drop (0 * sz) xs)) [1..<Suc m]) = sz
   \<and> (\<forall>i<sz. foldl (\<lambda>acc k. map2 max acc (take sz (drop (k * sz) xs)))
               (take sz (drop (0 * sz) xs)) [1..<Suc m] ! i =
             Max ((\<lambda>k. xs ! (k * sz + i)) ` {..m}))"
proof (induction m)
  case 0
  then have "0 < n" by simp
  from plane_length [OF this len] plane_nth [OF _ this len] show ?case by simp
next
  case (Suc m)
  then have IH: "length (foldl (\<lambda>acc k. map2 max acc (take sz (drop (k * sz) xs)))
               (take sz (drop (0 * sz) xs)) [1..<Suc m]) = sz"
    "\<And>i. i < sz \<Longrightarrow> foldl (\<lambda>acc k. map2 max acc (take sz (drop (k * sz) xs)))
               (take sz (drop (0 * sz) xs)) [1..<Suc m] ! i =
             Max ((\<lambda>k. xs ! (k * sz + i)) ` {..m})"
    by simp_all
  from Suc.prems have k: "Suc m < n" by simp
  note pl = plane_length [OF k len]
  have step: "[1..<Suc (Suc m)] = [1..<Suc m] @ [Suc m]" by simp
  show ?case
  proof (intro conjI allI impI)
    show "length (foldl (\<lambda>acc k. map2 max acc (take sz (drop (k * sz) xs)))
               (take sz (drop (0 * sz) xs)) [1..<Suc (Suc m)]) = sz"
      unfolding step foldl_append using IH(1) pl by simp
  next
    fix i assume i: "i < sz"
    have "{..Suc m} = insert (Suc m) {..m}" by auto
    then have "Max ((\<lambda>k. xs ! (k * sz + i)) ` {..Suc m}) =
        max (xs ! (Suc m * sz + i)) (Max ((\<lambda>k. xs ! (k * sz + i)) ` {..m}))"
      by simp
    also have "\<dots> = max (Max ((\<lambda>k. xs ! (k * sz + i)) ` {..m})) (xs ! (Suc m * sz + i))"
      by (rule max.commute)
    finally show "foldl (\<lambda>acc k. map2 max acc (take sz (drop (k * sz) xs)))
               (take sz (drop (0 * sz) xs)) [1..<Suc (Suc m)] ! i =
             Max ((\<lambda>k. xs ! (k * sz + i)) ` {..Suc m})"
      unfolding step foldl_append using IH(1) IH(2) [OF i] pl i plane_nth [OF i k len]
      by simp
  qed
qed

lemma max_dim0_Max:
  assumes "max_dim0 t = Inr m" "shape t = n # s" "length (elems t) = n * prod_list s"
  shows "0 < n \<and> shape m = s \<and> length (elems m) = prod_list s
    \<and> (\<forall>i<prod_list s. elems m ! i = Max ((\<lambda>k. elems t ! (k * prod_list s + i)) ` {..<n}))"
proof -
  from assms(1,2) have n: "0 < n" by (auto simp: max_dim0_def split: if_splits)
  then obtain k where k: "n = Suc k" by (cases n) auto
  then have lt: "{..<n} = {..k}" by auto
  from assms(1,2) n have m: "m = \<lparr>shape = s,
      elems = foldl (\<lambda>acc k. map2 max acc (take (prod_list s) (drop (k * prod_list s) (elems t))))
               (take (prod_list s) (drop (0 * prod_list s) (elems t))) [1..<n]\<rparr>"
    by (auto simp: max_dim0_def Let_def)
  from fold_planes [OF assms(3), of k] k have
    "length (foldl (\<lambda>acc k. map2 max acc (take (prod_list s) (drop (k * prod_list s) (elems t))))
               (take (prod_list s) (drop (0 * prod_list s) (elems t))) [1..<n]) = prod_list s
   \<and> (\<forall>i<prod_list s. foldl (\<lambda>acc k. map2 max acc (take (prod_list s) (drop (k * prod_list s) (elems t))))
               (take (prod_list s) (drop (0 * prod_list s) (elems t))) [1..<n] ! i =
             Max ((\<lambda>k. elems t ! (k * prod_list s + i)) ` {..k}))"
    by simp
  with m n lt show ?thesis by simp
qed



lemma where_gt_index_nth:
  "i < length (elems a) \<Longrightarrow>
   elems (where_gt_index c a) ! i = (if c < of_nat (elems a ! i) then 1 else 0)"
  by (simp add: where_gt_index_def)

lemma sam_preds_cases:
  "sam_preds c r = Inr m \<Longrightarrow>
   \<exists>data t. r = Some data \<and> max_dim0 data = Inr t \<and> m = where_gt c t"
  by (auto simp: sam_preds_def split: option.splits sum.splits)


lemma sam_result_saves:
  "sam_result pp c ps (i, r) cs = (Inr u, cs') \<Longrightarrow>
   \<exists>m. sam_preds c r = Inr m \<and> i < length ps \<and> cs' = cs @ [SaveMask m (output_file pp (ps ! i))]"
  by (auto simp: sam_result_def bind_io_def lift_io_def do_call_def item_def
      split: sum.splits if_splits)



lemma chunks_take:
  "concat (map (\<lambda>i. take n (drop (n * i) xs)) [0..<m]) = take (n * m) xs"
proof (induction m)
  case 0
  then show ?case by simp
next
  case (Suc m)
  have "take (n * m) xs @ take n (drop (n * m) xs) = take (n * m + n) xs"
    by (simp add: take_add)
  with Suc show ?case by (simp add: add.commute)
qed

lemma batches_cover: "concat (batches image_paths) = image_paths"
proof -
  have "length image_paths \<le> 8 * ((length image_paths + 7) div 8)" by arith
  then show ?thesis
    by (simp add: batches_def BATCH_SIZE_def chunks_take)
qed

lemma batches_size: "b \<in> set (batches image_paths) \<Longrightarrow> length b \<le> BATCH_SIZE \<and> b \<noteq> []"
  by (auto simp: batches_def BATCH_SIZE_def)

lemma dispatch_yolo: "dispatch X YOLO ps pp c cs = (Inl NotImplementedError, cs)"
  by (simp add: dispatch_def lift_io_def)

lemma dispatch_other:
  "dispatch X OtherModel ps pp c cs = (Inl (RuntimeError ''Loaded model is not supported''), cs)"
  by (simp add: dispatch_def lift_io_def)

text \<open>
  C3. \<^verbatim>\<open>predict\<close> decides on the class of the loaded model, and every model falls in
  one of four cases. A Keras model goes through the batches of the dense path and then
  through the post-processing; the batches are the image list cut into runs of at most
  eight. A YOLO model raises \<^verbatim>\<open>NotImplementedError\<close> right after the output directory
  is made: no mask is saved and nothing is georeferenced. A FastSAM model goes through
  one result per image; the prediction of a result is the greatest value over its
  instance masks at every pixel, thresholded. Any other model raises
  \<^verbatim>\<open>RuntimeError("Loaded model is not supported")\<close>, the unsupported-model failure of
  the specification, with no mask saved.
\<close>

theorem modality_dispatch:
  "(initialize_model X cp (if cuda_is_available X then ''cuda'' else ''cpu'') = KerasModel f \<longrightarrow>
      predict X cp ip pp c cs =
        (case for_each (keras_batch X f pp c) (batches (glob X (ip @ ''/*.png'')))
                (cs @ [Makedirs pp]) of
           (Inl e, cs') \<Rightarrow> (Inl e, cs')
         | (Inr _, cs') \<Rightarrow>
             (Inr PyNone,
              cs' @ [ClearSession, Georeference pp pp True, RemoveFiles (pp @ ''/*.xml''),
                     RemoveFiles (pp @ ''/*.png'')])))
   \<and> (initialize_model X cp (if cuda_is_available X then ''cuda'' else ''cpu'') = YOLO \<longrightarrow>
        predict X cp ip pp c cs = (Inl NotImplementedError, cs @ [Makedirs pp]))
   \<and> (initialize_model X cp (if cuda_is_available X then ''cuda'' else ''cpu'') = FastSAM run \<longrightarrow>
        predict X cp ip pp c cs =
          (case for_each (sam_result pp c (glob X (ip @ ''/*.png'')))
                  (List.enumerate 0 (run (glob X (ip @ ''/*.png'')))) (cs @ [Makedirs pp]) of
             (Inl e, cs') \<Rightarrow> (Inl e, cs')
           | (Inr _, cs') \<Rightarrow>
               (Inr PyNone,
                cs' @ [Georeference pp pp True, RemoveFiles (pp @ ''/*.xml''),
                       RemoveFiles (pp @ ''/*.png'')])))
   \<and> (initialize_model X cp (if cuda_is_available X then ''cuda'' else ''cpu'') = OtherModel \<longrightarrow>
        predict X cp ip pp c cs =
          (Inl (RuntimeError ''Loaded model is not supported''), cs @ [Makedirs pp]))
   \<and> (sam_result pp c ps (i, r) cs = (Inr u, cs') \<longrightarrow>
        (\<exists>data t. r = Some data \<and> max_dim0 data = Inr t \<and> i < length ps
           \<and> cs' = cs @ [SaveMask (where_gt c t) (output_file pp (ps ! i))]
           \<and> (\<forall>n s. shape data = n # s \<and> length (elems data) = n * prod_list s \<longrightarrow>
                 0 < n \<and> shape t = s \<and> length (elems t) = prod_list s
                 \<and> (\<forall>j<prod_list s.
                       elems t ! j = Max ((\<lambda>k. elems data ! (k * prod_list s + j)) ` {..<n})))))
   \<and> concat (batches ps) = ps
   \<and> (\<forall>b\<in>set (batches ps). length b \<le> BATCH_SIZE \<and> b \<noteq> [])"
proof (intro conjI impI)
  assume "initialize_model X cp (if cuda_is_available X then ''cuda'' else ''cpu'') = KerasModel f"
  then show "predict X cp ip pp c cs =
        (case for_each (keras_batch X f pp c) (batches (glob X (ip @ ''/*.png'')))
                (cs @ [Makedirs pp]) of
           (Inl e, cs') \<Rightarrow> (Inl e, cs')
         | (Inr _, cs') \<Rightarrow>
             (Inr PyNone,
              cs' @ [ClearSession, Georeference pp pp True, RemoveFiles (pp @ ''/*.xml''),
                     RemoveFiles (pp @ ''/*.png'')]))"
    by (simp add: predict_unfold dispatch_def is_keras_def split: prod.splits sum.splits)
next
  assume "initialize_model X cp (if cuda_is_available X then ''cuda'' else ''cpu'') = YOLO"
  then show "predict X cp ip pp c cs = (Inl NotImplementedError, cs @ [Makedirs pp])"
    by (simp add: predict_unfold dispatch_yolo)
next
  assume "initialize_model X cp (if cuda_is_available X then ''cuda'' else ''cpu'') = FastSAM run"
  then show "predict X cp ip pp c cs =
          (case for_each (sam_result pp c (glob X (ip @ ''/*.png'')))
                  (List.enumerate 0 (run (glob X (ip @ ''/*.png'')))) (cs @ [Makedirs pp]) of
             (Inl e, cs') \<Rightarrow> (Inl e, cs')
           | (Inr _, cs') \<Rightarrow>
               (Inr PyNone,
                cs' @ [Georeference pp pp True, RemoveFiles (pp @ ''/*.xml''),
                       RemoveFiles (pp @ ''/*.png'')]))"
    by (simp add: predict_unfold dispatch_def is_keras_def split: prod.splits sum.splits)
next
  assume "initialize_model X cp (if cuda_is_available X then ''cuda'' else ''cpu'') = OtherModel"
  then show "predict X cp ip pp c cs =
          (Inl (RuntimeError ''Loaded model is not supported''), cs @ [Makedirs pp])"
    by (simp add: predict_unfold dispatch_other)
next
  assume a: "sam_result pp c ps (i, r) cs = (Inr u, cs')"
  from sam_result_saves [OF a] obtain m where
    m: "sam_preds c r = Inr m" "i < length ps" "cs' = cs @ [SaveMask m (output_file pp (ps ! i))]"
    by blast
  from sam_preds_cases [OF m(1)] obtain data t where
    d: "r = Some data" "max_dim0 data = Inr t" "m = where_gt c t" by blast
  have "\<forall>n s. shape data = n # s \<and> length (elems data) = n * prod_list s \<longrightarrow>
                 0 < n \<and> shape t = s \<and> length (elems t) = prod_list s
                 \<and> (\<forall>j<prod_list s.
                       elems t ! j = Max ((\<lambda>k. elems data ! (k * prod_list s + j)) ` {..<n}))"
    using max_dim0_Max [OF d(2)] by blast
  with m d show "\<exists>data t. r = Some data \<and> max_dim0 data = Inr t \<and> i < length ps
           \<and> cs' = cs @ [SaveMask (where_gt c t) (output_file pp (ps ! i))]
           \<and> (\<forall>n s. shape data = n # s \<and> length (elems data) = n * prod_list s \<longrightarrow>
                 0 < n \<and> shape t = s \<and> length (elems t) = prod_list s
                 \<and> (\<forall>j<prod_list s.
                       elems t ! j = Max ((\<lambda>k. elems data ! (k * prod_list s + j)) ` {..<n})))"
    by blast
next
  show "concat (batches ps) = ps" by (rule batches_cover)
next
  show "\<forall>b\<in>set (batches ps). length b \<le> BATCH_SIZE \<and> b \<noteq> []"
    using batches_size by blast
qed




lemma index_threshold:
  fixes c :: rat
  assumes "0 \<le> c" "c < 1"
  shows "(c < of_nat v) = (1 \<le> v)"
proof
  assume "c < of_nat v"
  with assms(1) have "(0::rat) < of_nat v" by simp
  then show "1 \<le> v" by simp
next
  assume "1 \<le> v"
  then have "(1::rat) \<le> of_nat v" by simp
  with assms(2) show "c < of_nat v" by simp
qed

lemma dense_preds_index:
  assumes "0 \<le> c" "c < 1"
  shows "dense_preds f c images =
     (case argmax_last (f images) of
        Inl e \<Rightarrow> Inl e
      | Inr a \<Rightarrow> Inr \<lparr>shape = shape a @ [1],
                      elems = map (\<lambda>v. if 1 \<le> v then 1 else 0) (elems a)\<rparr>)"
  by (simp add: dense_preds_def where_gt_index_def expand_dims_last_def Let_def
      index_threshold [OF assms] split: sum.splits)

text \<open>
  C10. In the dense path the number compared with the confidence is the class index.
  For a confidence in \<open>[0, 1)\<close> the pixel is therefore 1 exactly when the index is at
  least 1, and two confidences of that interval give the same predictions and the same
  calls of \<^verbatim>\<open>predict\<close>.
\<close>

theorem dense_threshold_is_class_index:
  assumes "0 \<le> c" "c < 1" "0 \<le> c'" "c' < 1"
  shows "dense_preds f c images =
           (case argmax_last (f images) of
              Inl e \<Rightarrow> Inl e
            | Inr a \<Rightarrow> Inr \<lparr>shape = shape a @ [1],
                            elems = map (\<lambda>v. if 1 \<le> v then 1 else 0) (elems a)\<rparr>)
       \<and> dense_preds f c images = dense_preds f c' images
       \<and> (initialize_model X cp (if cuda_is_available X then ''cuda'' else ''cpu'') =
            KerasModel f \<longrightarrow>
          predict X cp ip pp c cs = predict X cp ip pp c' cs)"
proof -
  have eq: "dense_preds g c = dense_preds g c'" for g
    by (rule ext) (simp add: dense_preds_index assms)
  have "keras_batch X f pp c = keras_batch X f pp c'"
    by (rule ext) (simp add: keras_batch_def eq)
  then have "initialize_model X cp (if cuda_is_available X then ''cuda'' else ''cpu'') =
            KerasModel f \<Longrightarrow>
          predict X cp ip pp c cs = predict X cp ip pp c' cs"
    by (simp add: predict_unfold dispatch_def)
  with dense_preds_index [OF assms(1,2)] eq show ?thesis by simp
qed

section \<open>Inference on the examples\<close>

lemmas predict_defs =
  predict_def dispatch_def keras_batch_def save_batch_def dense_preds_def sam_result_def
  sam_preds_def batches_def reshape_images_def argmax_last_def argmax_list_def
  expand_dims_last_def where_gt_index_def where_gt_def index0_def max_dim0_def item_def
  output_file_def stem_def path_name_def do_call_def is_keras_def BATCH_SIZE_def
  IMAGE_SIZE_def bind_io_def return_io_def lift_io_def Let_def enumerate_eq_zip
  upt_conv_Cons

lemmas inference_demo_defs = demo_inference_def demo_keras_def demo_sam_def demo_masks_def

lemma demo_scores:
  "demo_keras = KerasModel (\<lambda>images.
       \<lparr>shape = [2, 1, 2, 2],
        elems = [1 / 5, 4 / 5, 9 / 10, 1 / 10, 1 / 2, 1 / 2, 3 / 10, 7 / 10]\<rparr>)"
  by (simp add: demo_keras_def)

theorem modality_dispatch_witness:
  "predict (demo_inference demo_keras) ''ckpt'' ''in'' ''out'' (1 / 2) [] =
     (Inr PyNone,
      [Makedirs ''out'', SaveMask \<lparr>shape = [1, 2, 1], elems = [1, 0]\<rparr> ''out/t1.png'',
       SaveMask \<lparr>shape = [1, 2, 1], elems = [0, 1]\<rparr> ''out/t2.png'', ClearSession,
       Georeference ''out'' ''out'' True, RemoveFiles ''out/*.xml'',
       RemoveFiles ''out/*.png''])
   \<and> predict (demo_inference YOLO) ''ckpt'' ''in'' ''out'' (1 / 2) [] =
       (Inl NotImplementedError, [Makedirs ''out''])
   \<and> predict (demo_inference demo_sam) ''ckpt'' ''in'' ''out'' (1 / 2) [] =
       (Inr PyNone,
        [Makedirs ''out'', SaveMask \<lparr>shape = [1, 2], elems = [1, 0]\<rparr> ''out/t1.png'',
         SaveMask \<lparr>shape = [1, 2], elems = [1, 0]\<rparr> ''out/t2.png'',
         Georeference ''out'' ''out'' True, RemoveFiles ''out/*.xml'',
         RemoveFiles ''out/*.png''])
   \<and> predict (demo_inference OtherModel) ''ckpt'' ''in'' ''out'' (1 / 2) [] =
       (Inl (RuntimeError ''Loaded model is not supported''), [Makedirs ''out''])
   \<and> (\<exists>t. max_dim0 demo_masks = Inr t \<and> shape t = [1, 2]
         \<and> elems t ! 1 = Max ((\<lambda>k. elems demo_masks ! (k * 2 + 1)) ` {..<2}))
   \<and> concat (batches [''in/t1.png'', ''in/t2.png'']) = [''in/t1.png'', ''in/t2.png'']
   \<and> list_all (\<lambda>b. length b \<le> BATCH_SIZE \<and> b \<noteq> [])
         (batches [''in/t1.png'', ''in/t2.png''])"
proof -
  let ?f = "\<lambda>images::rat ndarray.
       \<lparr>shape = [2, 1, 2, 2],
        elems = [1 / 5, 4 / 5, 9 / 10, 1 / 10, 1 / 2, 1 / 2, 3 / 10, 7 / 10 :: rat]\<rparr>"
  let ?run = "\<lambda>image_paths::path list. map (\<lambda>p. Some demo_masks) image_paths"
  have k: "initialize_model (demo_inference demo_keras) ''ckpt''
        (if cuda_is_available (demo_inference demo_keras) then ''cuda'' else ''cpu'') =
      KerasModel ?f"
    by (simp add: inference_demo_defs)
  have y: "initialize_model (demo_inference YOLO) ''ckpt''
        (if cuda_is_available (demo_inference YOLO) then ''cuda'' else ''cpu'') = YOLO"
    by (simp add: inference_demo_defs)
  have s: "initialize_model (demo_inference demo_sam) ''ckpt''
        (if cuda_is_available (demo_inference demo_sam) then ''cuda'' else ''cpu'') =
      FastSAM ?run"
    by (simp add: inference_demo_defs)
  have o: "initialize_model (demo_inference OtherModel) ''ckpt''
        (if cuda_is_available (demo_inference OtherModel) then ''cuda'' else ''cpu'') =
      OtherModel"
    by (simp add: inference_demo_defs)
  have kb: "for_each (keras_batch (demo_inference demo_keras) ?f ''out'' (1 / 2))
        (batches (glob (demo_inference demo_keras) (''in'' @ ''/*.png''))) ([] @ [Makedirs ''out'']) =
      (Inr (), [Makedirs ''out'', SaveMask \<lparr>shape = [1, 2, 1], elems = [1, 0]\<rparr> ''out/t1.png'',
       SaveMask \<lparr>shape = [1, 2, 1], elems = [0, 1]\<rparr> ''out/t2.png''])"
    by (simp add: predict_defs inference_demo_defs)
  have sb: "for_each (sam_result ''out'' (1 / 2) (glob (demo_inference demo_sam) (''in'' @ ''/*.png'')))
        (List.enumerate 0 (?run (glob (demo_inference demo_sam) (''in'' @ ''/*.png''))))
        ([] @ [Makedirs ''out'']) =
      (Inr (), [Makedirs ''out'', SaveMask \<lparr>shape = [1, 2], elems = [1, 0]\<rparr> ''out/t1.png'',
         SaveMask \<lparr>shape = [1, 2], elems = [1, 0]\<rparr> ''out/t2.png''])"
    by (simp add: predict_defs inference_demo_defs)
  have sr: "sam_result ''out'' (1 / 2) [''in/t1.png''] (0, Some demo_masks) [] =
      (Inr (), [SaveMask \<lparr>shape = [1, 2], elems = [1, 0]\<rparr> ''out/t1.png''])"
    by (simp add: predict_defs inference_demo_defs)
  have wf: "shape demo_masks = 2 # [1, 2] \<and> length (elems demo_masks) = 2 * prod_list [1, 2]"
    by (simp add: demo_masks_def)
  note d = modality_dispatch [where cp = "''ckpt''" and ip = "''in''" and pp = "''out''"
      and c = "1 / 2" and cs = "[]"]
  from d [where X = "demo_inference demo_keras" and f = ?f] k kb
  have 1: "predict (demo_inference demo_keras) ''ckpt'' ''in'' ''out'' (1 / 2) [] =
     (Inr PyNone,
      [Makedirs ''out'', SaveMask \<lparr>shape = [1, 2, 1], elems = [1, 0]\<rparr> ''out/t1.png'',
       SaveMask \<lparr>shape = [1, 2, 1], elems = [0, 1]\<rparr> ''out/t2.png'', ClearSession,
       Georeference ''out'' ''out'' True, RemoveFiles ''out/*.xml'',
       RemoveFiles ''out/*.png''])"
    by simp
  from d [where X = "demo_inference YOLO"] y
  have 2: "predict (demo_inference YOLO) ''ckpt'' ''in'' ''out'' (1 / 2) [] =
       (Inl NotImplementedError, [Makedirs ''out''])"
    by simp
  from d [where X = "demo_inference demo_sam" and run = ?run] s sb
  have 3: "predict (demo_inference demo_sam) ''ckpt'' ''in'' ''out'' (1 / 2) [] =
       (Inr PyNone,
        [Makedirs ''out'', SaveMask \<lparr>shape = [1, 2], elems = [1, 0]\<rparr> ''out/t1.png'',
         SaveMask \<lparr>shape = [1, 2], elems = [1, 0]\<rparr> ''out/t2.png'',
         Georeference ''out'' ''out'' True, RemoveFiles ''out/*.xml'',
         RemoveFiles ''out/*.png''])"
    by simp
  from d [where X = "demo_inference OtherModel"] o
  have 4: "predict (demo_inference OtherModel) ''ckpt'' ''in'' ''out'' (1 / 2) [] =
       (Inl (RuntimeError ''Loaded model is not supported''), [Makedirs ''out''])"
    by simp
  from d [where X = "demo_inference demo_sam" and run = ?run and f = ?f
      and ps = "[''in/t1.png'']" and i = 0 and r = "Some demo_masks" and u = "()"
      and cs' = "[SaveMask \<lparr>shape = [1, 2], elems = [1, 0]\<rparr> ''out/t1.png'']"] sr
  have "\<exists>data t. Some demo_masks = Some data \<and> max_dim0 data = Inr t \<and> 0 < length [''in/t1.png'']
           \<and> [SaveMask \<lparr>shape = [1, 2], elems = [1, 0]\<rparr> ''out/t1.png''] =
               [] @ [SaveMask (where_gt (1 / 2) t) (output_file ''out'' ([''in/t1.png''] ! 0))]
           \<and> (\<forall>n s. shape data = n # s \<and> length (elems data) = n * prod_list s \<longrightarrow>
                 0 < n \<and> shape t = s \<and> length (elems t) = prod_list s
                 \<and> (\<forall>j<prod_list s.
                       elems t ! j = Max ((\<lambda>k. elems data ! (k * prod_list s + j)) ` {..<n})))"
    by blast
  then obtain t where t: "max_dim0 demo_masks = Inr t"
    "\<forall>n s. shape demo_masks = n # s \<and> length (elems demo_masks) = n * prod_list s \<longrightarrow>
       0 < n \<and> shape t = s \<and> length (elems t) = prod_list s
       \<and> (\<forall>j<prod_list s. elems t ! j = Max ((\<lambda>k. elems demo_masks ! (k * prod_list s + j)) ` {..<n}))"
    by blast
  from t(2) wf have "shape t = [1, 2]"
    "\<forall>j<prod_list [1, 2]. elems t ! j = Max ((\<lambda>k. elems demo_masks ! (k * prod_list [1, 2] + j)) ` {..<2})"
    by blast+
  then have "shape t = [1, 2] \<and>
      elems t ! 1 = Max ((\<lambda>k. elems demo_masks ! (k * 2 + 1)) ` {..<2})"
    by simp
  with t(1) have 5: "\<exists>t. max_dim0 demo_masks = Inr t \<and> shape t = [1, 2]
         \<and> elems t ! 1 = Max ((\<lambda>k. elems demo_masks ! (k * 2 + 1)) ` {..<2})"
    by blast
  from d [where X = "demo_inference demo_sam" and run = ?run and f = ?f
      and ps = "[''in/t1.png'', ''in/t2.png'']"]
  have 6: "concat (batches [''in/t1.png'', ''in/t2.png'']) = [''in/t1.png'', ''in/t2.png'']"
    and 7: "list_all (\<lambda>b. length b \<le> BATCH_SIZE \<and> b \<noteq> [])
         (batches [''in/t1.png'', ''in/t2.png''])"
    unfolding list_all_iff by blast+
  from 1 2 3 4 5 6 7 show ?thesis by blast
qed



theorem dense_threshold_is_class_index_witness:
  "dense_preds (\<lambda>images. \<lparr>shape = [2, 1, 2, 2],
       elems = [1 / 5, 4 / 5, 9 / 10, 1 / 10, 1 / 2, 1 / 2, 3 / 10, 7 / 10]\<rparr>) (1 / 2)
     \<lparr>shape = [0, 256, 256, 3], elems = []\<rparr> =
   Inr \<lparr>shape = [2, 1, 2, 1], elems = [1, 0, 0, 1]\<rparr>
   \<and> dense_preds (\<lambda>images. \<lparr>shape = [2, 1, 2, 2],
         elems = [1 / 5, 4 / 5, 9 / 10, 1 / 10, 1 / 2, 1 / 2, 3 / 10, 7 / 10]\<rparr>) (1 / 2)
       \<lparr>shape = [0, 256, 256, 3], elems = []\<rparr> =
     dense_preds (\<lambda>images. \<lparr>shape = [2, 1, 2, 2],
         elems = [1 / 5, 4 / 5, 9 / 10, 1 / 10, 1 / 2, 1 / 2, 3 / 10, 7 / 10]\<rparr>) 0
       \<lparr>shape = [0, 256, 256, 3], elems = []\<rparr>
   \<and> predict (demo_inference demo_keras) ''ckpt'' ''in'' ''out'' (1 / 2) [] =
     predict (demo_inference demo_keras) ''ckpt'' ''in'' ''out'' 0 []"
proof -
  let ?scores = "\<lparr>shape = [2, 1, 2, 2],
      elems = [1 / 5, 4 / 5, 9 / 10, 1 / 10, 1 / 2, 1 / 2, 3 / 10, 7 / 10 :: rat]\<rparr>"
  let ?f = "\<lambda>images::rat ndarray. ?scores"
  have c: "(0::rat) \<le> 1 / 2" "(1 / 2 :: rat) < 1" "(0::rat) \<le> 0" "(0::rat) < 1" by simp_all
  have am: "argmax_last ?scores = Inr \<lparr>shape = [2, 1, 2], elems = [1, 0, 0, 1]\<rparr>"
    by (simp add: predict_defs)
  have k: "initialize_model (demo_inference demo_keras) ''ckpt''
        (if cuda_is_available (demo_inference demo_keras) then ''cuda'' else ''cpu'') =
      KerasModel ?f"
    by (simp add: inference_demo_defs)
  let ?x = "\<lparr>shape = [0, 256, 256, 3], elems = [] :: rat list\<rparr>"
  note th = dense_threshold_is_class_index [OF c, where f = ?f and images = ?x
      and X = "demo_inference demo_keras" and cp = "''ckpt''" and ip = "''in''"
      and pp = "''out''" and cs = "[]"]
  from th have A: "dense_preds ?f (1 / 2) ?x =
      (case argmax_last (?f ?x) of
         Inl e \<Rightarrow> Inl e
       | Inr a \<Rightarrow> Inr \<lparr>shape = shape a @ [1],
                       elems = map (\<lambda>v. if 1 \<le> v then 1 else 0) (elems a)\<rparr>)"
    and B: "dense_preds ?f (1 / 2) ?x = dense_preds ?f 0 ?x" by blast+
  from th k have C: "predict (demo_inference demo_keras) ''ckpt'' ''in'' ''out'' (1 / 2) [] =
     predict (demo_inference demo_keras) ''ckpt'' ''in'' ''out'' 0 []" by blast
  from A have A': "dense_preds ?f (1 / 2) ?x =
      Inr \<lparr>shape = [2, 1, 2, 1], elems = [1, 0, 0, 1]\<rparr>"
    unfolding am by simp
  from A' B C show ?thesis by blast
qed

end
